theory Spec2Isabelle
  imports Main "HOL-Library.Word"
begin

unbundle bit_operations_syntax

section \<open>opensc-explorer: a shell for smart cards\<close>

text \<open>
  A shallow embedding of \<^verbatim>\<open>src/tools/opensc-explorer.c\<close>. A C string is the list of
  its characters before the terminating NUL, a byte is an \<open>8 word\<close>, a \<^verbatim>\<open>size_t\<close> that
  cannot wrap in the code at hand is a \<open>nat\<close>.
\<close>

type_synonym u8 = "8 word"

subsection \<open>Characters (ctype.h, C locale)\<close>

definition char_code :: "char \<Rightarrow> nat" where
  "char_code c = of_char c"

definition isdigit_c :: "char \<Rightarrow> bool" where
  "isdigit_c c = (48 \<le> char_code c \<and> char_code c \<le> 57)"

definition isxdigit :: "char \<Rightarrow> bool" where
  "isxdigit c = (isdigit_c c \<or> (97 \<le> char_code c \<and> char_code c \<le> 102)
                             \<or> (65 \<le> char_code c \<and> char_code c \<le> 70))"

definition isspace_c :: "char \<Rightarrow> bool" where
  "isspace_c c = (char_code c = 32 \<or> (9 \<le> char_code c \<and> char_code c \<le> 13))"

definition tolower_c :: "char \<Rightarrow> char" where
  "tolower_c c = (if 65 \<le> char_code c \<and> char_code c \<le> 90 then char_of (char_code c + 32) else c)"

subsection \<open>hex2binary (lines 1000-1033)\<close>

text \<open>
  The value of a hex digit, as the three branches of the loop body compute it:
  \<^verbatim>\<open>c -= '0'\<close>, \<^verbatim>\<open>c -= 'a' - 10\<close>, \<^verbatim>\<open>c -= 'A' - 10\<close>.
\<close>

definition hex_digit_value :: "char \<Rightarrow> u8" where
  "hex_digit_value c =
     (if 48 \<le> char_code c \<and> char_code c \<le> 57 then of_nat (char_code c - 48)
      else if 97 \<le> char_code c \<and> char_code c \<le> 102 then of_nat (char_code c - (97 - 10))
      else of_nat (char_code c - (65 - 10)))"

text \<open>
  The loop state is the part of \<^verbatim>\<open>out\<close> written so far (its last element is the byte
  \<^verbatim>\<open>*out\<close> points to), the room \<^verbatim>\<open>len\<close> that is left, and the flag \<^verbatim>\<open>s\<close> (a high
  nibble is waiting for its low nibble). The first argument \<^verbatim>\<open>p\<close> is the input that is
  left, so \<^verbatim>\<open>inlen\<close> is its length. The loop runs while
  \<^verbatim>\<open>inlen && (len || s)\<close>.
\<close>

fun hex2binary_loop :: "string \<Rightarrow> u8 list \<Rightarrow> nat \<Rightarrow> bool \<Rightarrow> u8 list \<times> nat \<times> bool" where
  "hex2binary_loop [] out len s = (out, len, s)"
| "hex2binary_loop (c # p) out len s =
     (if \<not> (len \<noteq> 0 \<or> s) then (out, len, s)
      else if \<not> isxdigit c then hex2binary_loop p out len s
      else if s then
        hex2binary_loop p (butlast out @ [push_bit 4 (last out) OR hex_digit_value c]) len False
      else
        hex2binary_loop p (out @ [0 OR hex_digit_value c]) (len - 1) True)"

text \<open>
  The result of a call: whether the error message about an odd number of digits was
  printed, the value returned (0 on that error), and the bytes stored into \<^verbatim>\<open>out\<close>.
\<close>

datatype hex2binary_result = Hex2binary (odd_error: bool) (ret: nat) (written: "u8 list")

definition hex2binary :: "nat \<Rightarrow> string \<Rightarrow> hex2binary_result" where
  "hex2binary outlen inp =
     (case hex2binary_loop inp [] outlen False of
        (out, len, s) \<Rightarrow>
          if s then Hex2binary True 0 out
          else Hex2binary False (outlen - len) out)"

text \<open>What the loop is meant to compute: the digits paired off, high nibble first.\<close>

fun nibble_pairs :: "u8 list \<Rightarrow> u8 list" where
  "nibble_pairs (h # l # ds) = (push_bit 4 h OR l) # nibble_pairs ds"
| "nibble_pairs [h] = []"
| "nibble_pairs [] = []"

definition hex_digits :: "string \<Rightarrow> u8 list" where
  "hex_digits inp = map hex_digit_value (filter isxdigit inp)"


text \<open>
  The loop without the skipping of non-digits: \<^verbatim>\<open>hex2binary_loop\<close> on the digit
  values alone. It is used to reason about the loop.
\<close>

fun digits_run :: "u8 list \<Rightarrow> u8 list \<Rightarrow> nat \<Rightarrow> bool \<Rightarrow> u8 list \<times> nat \<times> bool" where
  "digits_run [] out len s = (out, len, s)"
| "digits_run (d # ds) out len s =
     (if len = 0 \<and> \<not> s then (out, len, s)
      else if s then digits_run ds (butlast out @ [push_bit 4 (last out) OR d]) len False
      else digits_run ds (out @ [d]) (len - 1) True)"

subsection \<open>String functions of the C library\<close>

text \<open>
  \<^verbatim>\<open>strncasecmp(a, b, n) == 0\<close>: the first \<open>n\<close> characters agree up to case, or both
  strings end, in agreement, before that.
\<close>

fun strncasecmp :: "string \<Rightarrow> string \<Rightarrow> nat \<Rightarrow> bool" where
  "strncasecmp a b 0 = True"
| "strncasecmp [] [] (Suc n) = True"
| "strncasecmp [] (y # b) (Suc n) = False"
| "strncasecmp (x # a) [] (Suc n) = False"
| "strncasecmp (x # a) (y # b) (Suc n) = (tolower_c x = tolower_c y \<and> strncasecmp a b n)"

text \<open>
  \<^verbatim>\<open>sscanf(s, "%d", &x)\<close>: white space is skipped, a sign is optional, at least one
  decimal digit must follow; what follows the digits is left unread. \<open>None\<close> stands for
  every return value other than 1. The number is converted as by \<^verbatim>\<open>strtol\<close>, to a
  \<^verbatim>\<open>long\<close> of 64 bits that stops at \<^verbatim>\<open>LONG_MIN\<close> and \<^verbatim>\<open>LONG_MAX\<close>, and its low 32
  bits are stored into the \<^verbatim>\<open>int\<close>: this is what the C library of the platform does with
  a number that does not fit an \<^verbatim>\<open>int\<close>, a case that the C standard leaves open.
\<close>

definition decimal_value :: "string \<Rightarrow> int" where
  "decimal_value ds = foldl (\<lambda>a c. 10 * a + int (char_code c - 48)) 0 ds"

definition strtol_value :: "bool \<Rightarrow> int \<Rightarrow> int" where
  "strtol_value neg n = (if neg then max (- (2 ^ 63)) (- n) else min (2 ^ 63 - 1) n)"

definition int_of_long :: "int \<Rightarrow> int" where
  "int_of_long v = (v + 2 ^ 31) mod 2 ^ 32 - 2 ^ 31"

definition sscanf_d :: "string \<Rightarrow> int option" where
  "sscanf_d s =
     (let s1 = dropWhile isspace_c s;
          neg = (case s1 of [] \<Rightarrow> False | c # _ \<Rightarrow> c = CHR ''-'');
          s2 = (case s1 of [] \<Rightarrow> [] | c # r \<Rightarrow> if c = CHR ''-'' \<or> c = CHR ''+'' then r else s1);
          ds = takeWhile isdigit_c s2
      in if ds = [] then None
         else Some (int_of_long (strtol_value neg (decimal_value ds))))"

text \<open>\<^verbatim>\<open>sprintf("%02X", b)\<close> for a byte.\<close>

definition hex_char :: "nat \<Rightarrow> char" where
  "hex_char n = (if n < 10 then char_of (48 + n) else char_of (55 + n))"

definition fmt_02X :: "u8 \<Rightarrow> string" where
  "fmt_02X b = [hex_char (unat b div 16), hex_char (unat b mod 16)]"

definition dquote :: char where
  "dquote = CHR 0x22"

subsection \<open>Paths and files (declared in libopensc/types.h)\<close>

text \<open>
  Modelled from the spec: the address kinds of CardAddress (ExplicitId, AppId,
  RelativePath) are the path types FILE_ID, DF_NAME and PATH of the header
  libopensc/types.h, which is not under src/. \<open>SC_PATH_TYPE_FILE_ID\<close> is the constant 0
  there: it is the type of a path that was only zeroed.
\<close>

datatype sc_path_type =
    SC_PATH_TYPE_FILE_ID | SC_PATH_TYPE_DF_NAME | SC_PATH_TYPE_PATH
  | SC_PATH_TYPE_PATH_PROT | SC_PATH_TYPE_FROM_CURRENT | SC_PATH_TYPE_PARENT

text \<open>
  Modelled from the spec: an AppId has at most 16 bytes; 16 is the size of the arrays
  \<^verbatim>\<open>value\<close> and \<^verbatim>\<open>aid.value\<close> of \<^verbatim>\<open>sc_path_t\<close> (the macros are not under src/).
\<close>

definition SC_MAX_PATH_SIZE :: nat where
  "SC_MAX_PATH_SIZE = 16"

definition SC_MAX_AID_SIZE :: nat where
  "SC_MAX_AID_SIZE = 16"

text \<open>
  \<^verbatim>\<open>sc_path_t\<close>: \<open>pvalue\<close> is the whole array \<^verbatim>\<open>value\<close>, of which the first \<open>plen\<close>
  bytes are the path.
\<close>

record sc_path =
  pvalue :: "u8 list"
  plen :: nat
  ptype :: sc_path_type
  aid_value :: "u8 list"
  aid_len :: nat

definition zero_path :: sc_path where
  "zero_path = \<lparr> pvalue = replicate SC_MAX_PATH_SIZE 0, plen = 0, ptype = SC_PATH_TYPE_FILE_ID,
                 aid_value = replicate SC_MAX_AID_SIZE 0, aid_len = 0 \<rparr>"

definition path_bytes :: "sc_path \<Rightarrow> u8 list" where
  "path_bytes p = take (plen p) (pvalue p)"

datatype sc_file_type =
    SC_FILE_TYPE_WORKING_EF | SC_FILE_TYPE_INTERNAL_EF | SC_FILE_TYPE_DF | SC_FILE_TYPE_OTHER

record sc_file =
  file_id :: int
  file_type :: sc_file_type
  file_size :: nat

datatype pin_type = SC_AC_NONE | SC_AC_CHV | SC_AC_AUT | SC_AC_PRO

text \<open>
  A buffer argument of a PIN call: the pointer (\<open>None\<close> is \<^verbatim>\<open>NULL\<close>, \<open>Some bs\<close> points
  to the bytes \<open>bs\<close>) and the length passed with it.
\<close>

type_synonym pin_arg = "u8 list option \<times> nat"

record sc_pin_cmd_data =
  pin_type :: pin_type
  pin_reference :: int
  use_pinpad :: bool
  pin1 :: pin_arg

subsection \<open>The functions called from outside this file\<close>

text \<open>
  The functions of libopensc and of the C library that the shell calls and that are not
  under src/ are parameters of the model. Those that do not talk to the card:
  \<^item> \<open>sc_format_path s p\<close>: the path that \<^verbatim>\<open>sc_format_path(s, &p)\<close> leaves in \<^verbatim>\<open>p\<close>;
  \<^item> \<open>sc_append_path_id p id\<close>: the path that \<^verbatim>\<open>sc_append_path_id(&p, id, 2)\<close> leaves
    in \<^verbatim>\<open>p\<close> (the shell ignores the status it returns);
  \<^item> \<open>sc_path_set t id idx cnt\<close>: the path set by \<^verbatim>\<open>sc_path_set\<close>, or \<open>None\<close> when it
    does not return \<^verbatim>\<open>SC_SUCCESS\<close>;
  \<^item> \<open>sc_hex_to_bin s n\<close>: the status (0 on success) and the bytes stored, whose number
    becomes the new value of the length argument;
  \<^item> \<open>sscanf_02X_02X s\<close>: the two numbers read by \<^verbatim>\<open>sscanf(s, "%02X%02X", ...)\<close>, or
    \<open>None\<close> when it does not return 2;
  \<^item> \<open>fopen name mode\<close>: whether the local file could be opened.
\<close>

record lib =
  sc_format_path :: "string \<Rightarrow> sc_path \<Rightarrow> sc_path"
  sc_append_path_id :: "sc_path \<Rightarrow> u8 list \<Rightarrow> sc_path"
  sc_path_set :: "sc_path_type \<Rightarrow> u8 list \<Rightarrow> int \<Rightarrow> int \<Rightarrow> sc_path option"
  sc_hex_to_bin :: "string \<Rightarrow> nat \<Rightarrow> int \<times> u8 list"
  sscanf_02X_02X :: "string \<Rightarrow> (nat \<times> nat) option"
  fopen :: "string \<Rightarrow> string \<Rightarrow> bool"

text \<open>
  The Card Interface, with a state \<open>'c\<close> of the card and the reader that every call may
  change. A call that returns a status and fills a buffer or a file object returns
  \<open>Inl r\<close> for a failure with status \<open>r\<close> and \<open>Inr x\<close> for a success with the data \<open>x\<close>:
  \<^item> \<open>sc_list_files c n\<close>: \<open>Inl r\<close> with \<open>r < 0\<close>, or the bytes put into the buffer of
    size \<open>n\<close>, whose number is the value returned;
  \<^item> \<open>sc_select_file c p want\<close>: \<open>Inl r\<close> with \<open>r \<noteq> 0\<close>, or the file selected (asked
    for when \<open>want\<close>, that is when the last argument is not \<^verbatim>\<open>NULL\<close>);
  \<^item> \<open>sc_read_binary c idx n\<close>: \<open>Inl r\<close> with \<open>r < 0\<close>, or the bytes read, whose number
    is the value returned;
  \<^item> the PIN calls return their status, and the number of tries left where the call
    has that argument;
  \<^item> \<open>is_belpic_eid\<close>: \<^verbatim>\<open>card->type == SC_CARD_TYPE_BELPIC_EID\<close>;
  \<^item> \<open>reader_has_pin_pad\<close>: \<^verbatim>\<open>card->reader->capabilities & SC_READER_CAP_PIN_PAD\<close>.
\<close>

record 'c card_ops =
  sc_list_files :: "'c \<Rightarrow> nat \<Rightarrow> (int + u8 list) \<times> 'c"
  sc_select_file :: "'c \<Rightarrow> sc_path \<Rightarrow> bool \<Rightarrow> (int + sc_file) \<times> 'c"
  sc_read_binary :: "'c \<Rightarrow> nat \<Rightarrow> nat \<Rightarrow> (int + u8 list) \<times> 'c"
  sc_pin_cmd :: "'c \<Rightarrow> sc_pin_cmd_data \<Rightarrow> (int \<times> int) \<times> 'c"
  sc_change_reference_data :: "'c \<Rightarrow> pin_type \<Rightarrow> int \<Rightarrow> pin_arg \<Rightarrow> pin_arg \<Rightarrow> (int \<times> int) \<times> 'c"
  sc_reset_retry_counter :: "'c \<Rightarrow> pin_type \<Rightarrow> int \<Rightarrow> pin_arg \<Rightarrow> pin_arg \<Rightarrow> int \<times> 'c"
  is_belpic_eid :: bool
  reader_has_pin_pad :: bool

text \<open>What the shell did to the outside, in order: the calls with their answers.\<close>

datatype event =
    Ev_list_files nat "int + u8 list"
  | Ev_select_file sc_path bool "int + sc_file"
  | Ev_read_binary nat nat "int + u8 list"
  | Ev_pin_cmd sc_pin_cmd_data int
  | Ev_change_reference_data pin_type int pin_arg pin_arg int
  | Ev_reset_retry_counter pin_type int pin_arg pin_arg int
  | Ev_fopen string string bool
  | Ev_fwrite "u8 list"
  | Ev_hex_dump "u8 list" nat

text \<open>
  The globals \<^verbatim>\<open>current_path\<close> and \<^verbatim>\<open>current_file\<close> (\<open>None\<close> is \<^verbatim>\<open>NULL\<close>), the card
  behind \<^verbatim>\<open>card\<close>, and the calls made so far.
\<close>

record 'c world =
  card_state :: 'c
  current_path :: sc_path
  current_file :: "sc_file option"
  trace :: "event list"

text \<open>The failures of the commands, one for each message printed before \<^verbatim>\<open>return -1\<close>.\<close>

datatype error =
    Usage
  | Wrong_ID_length
  | Invalid_ID
  | Invalid_DF_NAME_length
  | Invalid_type
  | Invalid_key_reference
  | Invalid_key_value
  | No_pin_pad
  | Already_in_MF
  | Unable_to_go_up int
  | Unable_to_select int
  | Not_a_DF
  | Not_a_working_EF
  | List_failed int
  | Read_failed int
  | Short_read nat nat
  | Fopen_failed string
  | Pin_cmd_failed int int
  | Change_failed int int
  | Unblock_failed int

text \<open>
  How a command ends: it returns to the shell, the process exits in \<^verbatim>\<open>die\<close>, or the
  C program leaves defined behaviour (an access outside an array).
\<close>

datatype 'a exec = Returned 'a | Died int | Undefined

definition call_list_files :: "'c card_ops \<Rightarrow> 'c world \<Rightarrow> nat \<Rightarrow> (int + u8 list) \<times> 'c world" where
  "call_list_files ops w n =
     (case sc_list_files ops (card_state w) n of
        (r, c) \<Rightarrow> (r, w\<lparr>card_state := c, trace := trace w @ [Ev_list_files n r]\<rparr>))"

definition call_select_file ::
  "'c card_ops \<Rightarrow> 'c world \<Rightarrow> sc_path \<Rightarrow> bool \<Rightarrow> (int + sc_file) \<times> 'c world" where
  "call_select_file ops w p want =
     (case sc_select_file ops (card_state w) p want of
        (r, c) \<Rightarrow> (r, w\<lparr>card_state := c, trace := trace w @ [Ev_select_file p want r]\<rparr>))"

definition call_read_binary ::
  "'c card_ops \<Rightarrow> 'c world \<Rightarrow> nat \<Rightarrow> nat \<Rightarrow> (int + u8 list) \<times> 'c world" where
  "call_read_binary ops w idx n =
     (case sc_read_binary ops (card_state w) idx n of
        (r, c) \<Rightarrow> (r, w\<lparr>card_state := c, trace := trace w @ [Ev_read_binary idx n r]\<rparr>))"

definition call_pin_cmd ::
  "'c card_ops \<Rightarrow> 'c world \<Rightarrow> sc_pin_cmd_data \<Rightarrow> (int \<times> int) \<times> 'c world" where
  "call_pin_cmd ops w d =
     (case sc_pin_cmd ops (card_state w) d of
        ((r, tries), c) \<Rightarrow> ((r, tries), w\<lparr>card_state := c, trace := trace w @ [Ev_pin_cmd d r]\<rparr>))"

definition call_change_reference_data ::
  "'c card_ops \<Rightarrow> 'c world \<Rightarrow> pin_type \<Rightarrow> int \<Rightarrow> pin_arg \<Rightarrow> pin_arg \<Rightarrow> (int \<times> int) \<times> 'c world" where
  "call_change_reference_data ops w t ref old new =
     (case sc_change_reference_data ops (card_state w) t ref old new of
        ((r, tries), c) \<Rightarrow>
          ((r, tries),
           w\<lparr>card_state := c, trace := trace w @ [Ev_change_reference_data t ref old new r]\<rparr>))"

definition call_reset_retry_counter ::
  "'c card_ops \<Rightarrow> 'c world \<Rightarrow> pin_type \<Rightarrow> int \<Rightarrow> pin_arg \<Rightarrow> pin_arg \<Rightarrow> int \<times> 'c world" where
  "call_reset_retry_counter ops w t ref puk new =
     (case sc_reset_retry_counter ops (card_state w) t ref puk new of
        (r, c) \<Rightarrow>
          (r, w\<lparr>card_state := c, trace := trace w @ [Ev_reset_retry_counter t ref puk new r]\<rparr>))"

subsection \<open>select_current_path_or_die (lines 95-104)\<close>

definition select_current_path_or_die :: "'c card_ops \<Rightarrow> 'c world \<Rightarrow> unit exec \<times> 'c world" where
  "select_current_path_or_die ops w =
     (if ptype (current_path w) \<noteq> SC_PATH_TYPE_FILE_ID \<or> plen (current_path w) \<noteq> 0 then
        (case call_select_file ops w (current_path w) False of
           (Inl r, w') \<Rightarrow> (Died 1, w')
         | (Inr f, w') \<Rightarrow> (Returned (), w'))
      else (Returned (), w))"

subsection \<open>arg_to_path (lines 132-182)\<close>

text \<open>
  The path argument is zeroed first; \<open>Inr\<close> is \<^verbatim>\<open>return 0\<close> with the path built,
  \<open>Inl\<close> is \<^verbatim>\<open>return -1\<close> after the message. The message that \<^verbatim>\<open>hex2binary\<close> prints
  for an odd number of digits does not change what \<^verbatim>\<open>arg_to_path\<close> returns.
\<close>

definition store_at_start :: "u8 list \<Rightarrow> u8 list \<Rightarrow> u8 list" where
  "store_at_start bs arr = bs @ drop (length bs) arr"

definition arg_to_path :: "lib \<Rightarrow> sc_path \<Rightarrow> string \<Rightarrow> bool \<Rightarrow> error + sc_path" where
  "arg_to_path l cur_path arg is_id =
     (if strncasecmp arg ''aid:'' (length ''aid:'') then
        (let h = hex2binary SC_MAX_PATH_SIZE (drop (length ''aid:'') arg) in
         Inr (zero_path\<lparr> pvalue := store_at_start (written h) (pvalue zero_path),
                         plen := ret h, ptype := SC_PATH_TYPE_DF_NAME \<rparr>))
      else if length arg \<noteq> 4 then Inl Wrong_ID_length
      else
        (case sscanf_02X_02X l arg of
           None \<Rightarrow> Inl Invalid_ID
         | Some (b0, b1) \<Rightarrow>
            (let cbuf = [of_nat b0, of_nat b1 :: u8] in
             if (cbuf ! 0 = 0x3F \<and> cbuf ! 1 = 0x00) \<or> is_id then
               Inr (zero_path\<lparr> plen := 2, pvalue := store_at_start cbuf (pvalue zero_path),
                               ptype := (if is_id then SC_PATH_TYPE_FILE_ID else SC_PATH_TYPE_PATH) \<rparr>)
             else if ptype cur_path = SC_PATH_TYPE_DF_NAME then
               (if plen cur_path > SC_MAX_AID_SIZE then Inl Invalid_DF_NAME_length
                else Inr (sc_append_path_id l
                       (cur_path\<lparr> aid_value := store_at_start (path_bytes cur_path) (aid_value cur_path),
                                  aid_len := plen cur_path,
                                  ptype := SC_PATH_TYPE_FILE_ID, plen := 0 \<rparr>) cbuf))
             else Inr (sc_append_path_id l cur_path cbuf))))"

subsection \<open>do_ls (lines 212-256)\<close>

text \<open>
  The loop over the listing, two bytes at a time. Printing the file is not modelled.
\<close>

fun do_ls_loop :: "'c card_ops \<Rightarrow> lib \<Rightarrow> u8 list \<Rightarrow> 'c world \<Rightarrow> unit exec \<times> 'c world" where
  "do_ls_loop ops l (b0 # b1 # cur) w =
     (case (if ptype (current_path w) \<noteq> SC_PATH_TYPE_DF_NAME
            then Some (sc_append_path_id l (current_path w) [b0, b1])
            else sc_path_set l SC_PATH_TYPE_FILE_ID [b0, b1] 0 0) of
        None \<Rightarrow> (Died 1, w)
      | Some path \<Rightarrow>
         (case select_current_path_or_die ops (snd (call_select_file ops w path True)) of
            (Returned u, w') \<Rightarrow> do_ls_loop ops l cur w'
          | (Died n, w') \<Rightarrow> (Died n, w')
          | (Undefined, w') \<Rightarrow> (Undefined, w')))"
| "do_ls_loop ops l [b0] w = (Returned (), w)"
| "do_ls_loop ops l [] w = (Returned (), w)"

definition do_ls :: "'c card_ops \<Rightarrow> lib \<Rightarrow> 'c world \<Rightarrow> string list \<Rightarrow> (error + unit) exec \<times> 'c world" where
  "do_ls ops l w argv =
     (if argv \<noteq> [] then (Returned (Inl Usage), w)
      else
        (case call_list_files ops w 256 of
           (Inl r, w1) \<Rightarrow> (Returned (Inl (List_failed r)), w1)
         | (Inr buf, w1) \<Rightarrow>
            (case do_ls_loop ops l buf w1 of
               (Returned u, w2) \<Rightarrow> (Returned (Inr ()), w2)
             | (Died n, w2) \<Rightarrow> (Died n, w2)
             | (Undefined, w2) \<Rightarrow> (Undefined, w2))))"

subsection \<open>do_cd (lines 258-314)\<close>

definition do_cd :: "'c card_ops \<Rightarrow> lib \<Rightarrow> 'c world \<Rightarrow> string list \<Rightarrow> (error + unit) exec \<times> 'c world" where
  "do_cd ops l w argv =
     (if length argv \<noteq> 1 then (Returned (Inl Usage), w)
      else if argv ! 0 = ''..'' then
        (let path = current_path w in
         if plen path < 4 then (Returned (Inl Already_in_MF), w)
         else
           (let path' = (if ptype path = SC_PATH_TYPE_DF_NAME then sc_format_path l ''3F00'' path
                         else path\<lparr>plen := plen path - 2\<rparr>) in
            case call_select_file ops w path' True of
              (Inl r, w') \<Rightarrow> (Returned (Inl (Unable_to_go_up r)), w')
            | (Inr file, w') \<Rightarrow>
                (Returned (Inr ()), w'\<lparr>current_file := Some file, current_path := path'\<rparr>)))
      else
        (case arg_to_path l (current_path w) (argv ! 0) False of
           Inl e \<Rightarrow> (Returned (Inl Usage), w)
         | Inr path \<Rightarrow>
            (case call_select_file ops w path True of
               (Inl r, w') \<Rightarrow> (Returned (Inl (Unable_to_select r)), w')
             | (Inr file, w') \<Rightarrow>
                 if file_type file \<noteq> SC_FILE_TYPE_DF \<and> \<not> is_belpic_eid ops then
                   (case select_current_path_or_die ops w' of
                      (Returned u, w'') \<Rightarrow> (Returned (Inl Not_a_DF), w'')
                    | (Died n, w'') \<Rightarrow> (Died n, w'')
                    | (Undefined, w'') \<Rightarrow> (Undefined, w''))
                 else (Returned (Inr ()), w'\<lparr>current_path := path, current_file := Some file\<rparr>))))"

subsection \<open>The chunked read (lines 323-341 and 960-978)\<close>

text \<open>
  \<^verbatim>\<open>read_and_util_print_binary_file\<close> and \<^verbatim>\<open>do_get\<close> contain the same loop, with a
  buffer of 128 and of 256 bytes, and with \<^verbatim>\<open>util_hex_dump_asc\<close> and \<^verbatim>\<open>fwrite\<close> as the
  sink of the bytes received. \<^verbatim>\<open>idx\<close> is an \<^verbatim>\<open>unsigned int\<close> of 32 bits, \<^verbatim>\<open>count\<close> a
  \<^verbatim>\<open>size_t\<close>, taken to be 64 bits wide; both wrap around. The loop need not end when
  the card answers with more bytes than were asked for, so \<open>None\<close> is the loop that
  does not return.
\<close>

partial_function (option) read_binary_loop ::
  "'c card_ops \<Rightarrow> nat \<Rightarrow> (u8 list \<Rightarrow> nat \<Rightarrow> event) \<Rightarrow> 'c world \<Rightarrow> nat \<Rightarrow> nat
     \<Rightarrow> ((error + unit) \<times> 'c world \<times> nat) option" where
  "read_binary_loop ops bufsize sink w idx count =
     (if count = 0 then Some (Inr (), w, idx)
      else
        (let c = (if count > bufsize then bufsize else count);
             res = call_read_binary ops w idx c
         in case fst res of
              Inl r \<Rightarrow> Some (Inl (Read_failed r), snd res, idx)
            | Inr data \<Rightarrow>
                if length data \<noteq> c \<and> \<not> is_belpic_eid ops then
                  Some (Inl (Short_read c (length data)), snd res, idx)
                else if length data = 0 \<and> is_belpic_eid ops then
                  Some (Inr (), snd res, idx)
                else
                  read_binary_loop ops bufsize sink
                    ((snd res)\<lparr>trace := trace (snd res) @ [sink data idx]\<rparr>)
                    ((idx + length data) mod 2 ^ 32)
                    ((count + 2 ^ 64 - length data mod 2 ^ 64) mod 2 ^ 64)))"

declare read_binary_loop.simps [code]

definition read_and_util_print_binary_file ::
  "'c card_ops \<Rightarrow> 'c world \<Rightarrow> sc_file \<Rightarrow> ((error + unit) \<times> 'c world \<times> nat) option" where
  "read_and_util_print_binary_file ops w file =
     read_binary_loop ops 128 Ev_hex_dump w 0 (file_size file)"

subsection \<open>do_get (lines 917-998) and the file name of do_put (lines 1170-1179)\<close>

text \<open>
  The default file name of \<^verbatim>\<open>do_get\<close> (lines 935-942): every pair of bytes below
  \<^verbatim>\<open>path.len\<close> is printed with a trailing underscore, and the last underscore is
  overwritten by the terminating NUL. With \<^verbatim>\<open>path.len == 0\<close> that NUL is written
  before the start of \<^verbatim>\<open>fbuf\<close>, and a pair may not reach beyond the array \<^verbatim>\<open>value\<close>:
  \<open>None\<close> in both cases.
\<close>

definition do_get_filename :: "sc_path \<Rightarrow> string option" where
  "do_get_filename path =
     (let n = (plen path + 1) div 2 in
      if n = 0 \<or> length (pvalue path) < 2 * n then None
      else Some (butlast (concat (map
             (\<lambda>i. fmt_02X (pvalue path ! (2 * i)) @ fmt_02X (pvalue path ! (2 * i + 1)) @ ''_'')
             [0 ..< n]))))"

text \<open>The default file name of \<^verbatim>\<open>do_put\<close> (line 1177).\<close>

definition do_put_filename :: "sc_path \<Rightarrow> string option" where
  "do_put_filename path =
     (if length (pvalue path) < 2 then None
      else Some (fmt_02X (pvalue path ! 0) @ fmt_02X (pvalue path ! 1)))"

text \<open>
  The start of \<^verbatim>\<open>do_put\<close>, up to the name of the local file that it opens for reading
  (lines 1170-1180). The transfer that follows is not modelled.
\<close>

definition do_put_local_file :: "lib \<Rightarrow> sc_path \<Rightarrow> string list \<Rightarrow> (error + string) exec" where
  "do_put_local_file l cur_path argv =
     (if length argv < 1 \<or> length argv > 2 then Returned (Inl Usage)
      else
        (case arg_to_path l cur_path (argv ! 0) False of
           Inl e \<Rightarrow> Returned (Inl Usage)
         | Inr path \<Rightarrow>
            (if length argv = 2 then Returned (Inr (argv ! 1))
             else (case do_put_filename path of
                     None \<Rightarrow> Undefined
                   | Some name \<Rightarrow> Returned (Inr name)))))"

text \<open>The exit of \<^verbatim>\<open>do_get\<close> through the label \<^verbatim>\<open>err\<close> (lines 988-994).\<close>

definition do_get_exit ::
  "'c card_ops \<Rightarrow> 'c world \<Rightarrow> error + unit \<Rightarrow> (error + unit) exec \<times> 'c world" where
  "do_get_exit ops w res =
     (case select_current_path_or_die ops w of
        (Returned u, w') \<Rightarrow> (Returned res, w')
      | (Died n, w') \<Rightarrow> (Died n, w')
      | (Undefined, w') \<Rightarrow> (Undefined, w'))"

text \<open>
  \<^verbatim>\<open>do_get\<close>. The bytes read are written with \<^verbatim>\<open>fwrite\<close>; when they went to the
  standard output (the file name \<open>-\<close>) a newline is written after them (lines 979-981).
  The message about the number of bytes saved is not modelled.
\<close>

definition do_get ::
  "'c card_ops \<Rightarrow> lib \<Rightarrow> 'c world \<Rightarrow> string list \<Rightarrow> ((error + unit) exec \<times> 'c world) option" where
  "do_get ops l w argv =
     (if length argv < 1 \<or> length argv > 2 then Some (Returned (Inl Usage), w)
      else
        (case arg_to_path l (current_path w) (argv ! 0) False of
           Inl e \<Rightarrow> Some (Returned (Inl Usage), w)
         | Inr path \<Rightarrow>
            (case (if length argv = 2 then Some (argv ! 1) else do_get_filename path) of
               None \<Rightarrow> Some (Undefined, w)
             | Some filename \<Rightarrow>
                (let to_stdout = (filename = ''-'');
                     opened = (to_stdout \<or> fopen l filename ''wb'');
                     w0 = (if to_stdout then w
                           else w\<lparr>trace := trace w @ [Ev_fopen filename ''wb'' opened]\<rparr>)
                 in if \<not> opened then Some (do_get_exit ops w0 (Inl (Fopen_failed filename)))
                    else
                      (case call_select_file ops w0 path True of
                         (Inl r, w1) \<Rightarrow> Some (do_get_exit ops w1 (Inl (Unable_to_select r)))
                       | (Inr file, w1) \<Rightarrow>
                           if file_type file \<noteq> SC_FILE_TYPE_WORKING_EF then
                             Some (do_get_exit ops w1 (Inl Not_a_working_EF))
                           else
                             (case read_binary_loop ops 256 (\<lambda>data idx. Ev_fwrite data) w1 0
                                     (file_size file) of
                                None \<Rightarrow> None
                              | Some (Inl e, w2, idx) \<Rightarrow> Some (do_get_exit ops w2 (Inl e))
                              | Some (Inr u, w2, idx) \<Rightarrow>
                                  Some (do_get_exit ops
                                    (if to_stdout
                                     then w2\<lparr>trace := trace w2 @ [Ev_fwrite [0x0A]]\<rparr>
                                     else w2)
                                    (Inr ()))))))))"

subsection \<open>do_verify, do_change and do_unblock (lines 665-915)\<close>

text \<open>
  A PIN or key value on the command line. The two branches are written out in the
  source wherever a value is read (lines 713-726, 782-790, 796-804, 859-867 and
  875-883), for a buffer of \<open>bufsize\<close> bytes: after an opening double quote the characters
  up to the next double quote are copied, at most \<open>bufsize\<close> of them; anything else goes
  through \<^verbatim>\<open>sc_hex_to_bin\<close>.
\<close>

definition byte_of_char :: "char \<Rightarrow> u8" where
  "byte_of_char c = of_nat (char_code c)"

definition read_key_value :: "lib \<Rightarrow> nat \<Rightarrow> string \<Rightarrow> error + u8 list" where
  "read_key_value l bufsize arg =
     (case arg of
        [] \<Rightarrow> (case sc_hex_to_bin l arg bufsize of
                 (r, bs) \<Rightarrow> if r \<noteq> 0 then Inl Invalid_key_value else Inr bs)
      | c # s \<Rightarrow>
          if c = dquote then Inr (map byte_of_char (take bufsize (takeWhile (\<lambda>x. x \<noteq> dquote) s)))
          else (case sc_hex_to_bin l arg bufsize of
                  (r, bs) \<Rightarrow> if r \<noteq> 0 then Inl Invalid_key_value else Inr bs))"

text \<open>The table \<^verbatim>\<open>typeNames\<close> of \<^verbatim>\<open>do_verify\<close> and the search through it (lines 689-695).\<close>

definition typeNames :: "(string \<times> pin_type) list" where
  "typeNames = [(''CHV'', SC_AC_CHV), (''KEY'', SC_AC_AUT), (''AUT'', SC_AC_AUT), (''PRO'', SC_AC_PRO)]"

fun find_pin_type :: "(string \<times> pin_type) list \<Rightarrow> string \<Rightarrow> pin_type" where
  "find_pin_type [] arg = SC_AC_NONE"
| "find_pin_type ((name, t) # tn) arg = (if strncasecmp arg name 3 then t else find_pin_type tn arg)"

definition do_verify :: "'c card_ops \<Rightarrow> lib \<Rightarrow> 'c world \<Rightarrow> string list \<Rightarrow> (error + unit) \<times> 'c world" where
  "do_verify ops l w argv =
     (if length argv < 1 \<or> length argv > 2 then (Inl Usage, w)
      else if find_pin_type typeNames (argv ! 0) = SC_AC_NONE then (Inl Invalid_type, w)
      else
        (case sscanf_d (drop 3 (argv ! 0)) of
           None \<Rightarrow> (Inl Invalid_key_reference, w)
         | Some ref \<Rightarrow>
            (let data = \<lparr> pin_type = find_pin_type typeNames (argv ! 0), pin_reference = ref,
                          use_pinpad = False, pin1 = (None, 0) \<rparr> in
             case (if length argv < 2 then
                     (if \<not> reader_has_pin_pad ops then Inl No_pin_pad
                      else Inr (data\<lparr>use_pinpad := True\<rparr>))
                   else
                     (case read_key_value l 64 (argv ! 1) of
                        Inl e \<Rightarrow> Inl e
                      | Inr bs \<Rightarrow> Inr (data\<lparr>pin1 := (Some bs, length bs)\<rparr>))) of
               Inl e \<Rightarrow> (Inl e, w)
             | Inr data' \<Rightarrow>
                 (case call_pin_cmd ops w data' of
                    ((r, tries_left), w') \<Rightarrow>
                      if r \<noteq> 0 then (Inl (Pin_cmd_failed r tries_left), w') else (Inr (), w')))))"

definition do_change :: "'c card_ops \<Rightarrow> lib \<Rightarrow> 'c world \<Rightarrow> string list \<Rightarrow> (error + unit) \<times> 'c world" where
  "do_change ops l w argv =
     (if length argv < 1 \<or> length argv > 3 then (Inl Usage, w)
      else if \<not> strncasecmp (argv ! 0) ''CHV'' 3 then (Inl Invalid_type, w)
      else
        (case sscanf_d (drop 3 (argv ! 0)) of
           None \<Rightarrow> (Inl Invalid_key_reference, w)
         | Some ref \<Rightarrow>
            (let args = tl argv in
             case (if length args = 0 then Inr ([], args)
                   else if length args = 1 then Inr ([], args)
                   else (case read_key_value l 30 (args ! 0) of
                           Inl e \<Rightarrow> Inl e
                         | Inr bs \<Rightarrow> Inr (bs, tl args))) of
               Inl e \<Rightarrow> (Inl e, w)
             | Inr (oldpin, args') \<Rightarrow>
                (case (if args' \<noteq> [] then read_key_value l 30 (args' ! 0) else Inr []) of
                   Inl e \<Rightarrow> (Inl e, w)
                 | Inr newpin \<Rightarrow>
                    (case call_change_reference_data ops w SC_AC_CHV ref
                            (if length oldpin \<noteq> 0 then Some oldpin else None, length oldpin)
                            (if length newpin \<noteq> 0 then Some newpin else None, length newpin) of
                       ((r, tries_left), w') \<Rightarrow>
                         if r \<noteq> 0 then (Inl (Change_failed r tries_left), w')
                         else (Inr (), w'))))))"

definition do_unblock :: "'c card_ops \<Rightarrow> lib \<Rightarrow> 'c world \<Rightarrow> string list \<Rightarrow> (error + unit) \<times> 'c world" where
  "do_unblock ops l w argv =
     (if length argv < 1 \<or> length argv > 3 then (Inl Usage, w)
      else if \<not> strncasecmp (argv ! 0) ''CHV'' 3 then (Inl Invalid_type, w)
      else
        (case sscanf_d (drop 3 (argv ! 0)) of
           None \<Rightarrow> (Inl Invalid_key_reference, w)
         | Some ref \<Rightarrow>
            (let args = tl argv in
             case (if length args = 0 then Inr ((None, 0), args)
                   else (case read_key_value l 30 (args ! 0) of
                           Inl e \<Rightarrow> Inl e
                         | Inr bs \<Rightarrow> Inr ((Some bs, length bs), tl args))) of
               Inl e \<Rightarrow> (Inl e, w)
             | Inr (puk, args') \<Rightarrow>
                (case (if args' \<noteq> [] then
                         (case read_key_value l 30 (args' ! 0) of
                            Inl e \<Rightarrow> Inl e
                          | Inr bs \<Rightarrow> Inr (Some bs, length bs))
                       else Inr (None, 0)) of
                   Inl e \<Rightarrow> (Inl e, w)
                 | Inr newpin \<Rightarrow>
                    (case call_reset_retry_counter ops w SC_AC_CHV ref puk newpin of
                       (r, w') \<Rightarrow>
                         if r \<noteq> 0 then (Inl (Unblock_failed r), w') else (Inr (), w'))))))"

subsection \<open>The command table and the dispatch (lines 106-123, 1463-1523 and 1668-1678)\<close>

datatype handler =
    Do_ls | Do_cd | Do_cat | Do_info | Do_create | Do_delete | Do_verify | Do_change
  | Do_unblock | Do_put | Do_get | Do_get_data | Do_put_data | Do_mkdir | Do_erase
  | Do_random | Do_quit | Do_update_record | Do_update_binary | Do_debug | Do_apdu | Do_asn1

record command =
  cmd_name :: string
  cmd_func :: handler
  cmd_help :: string

definition cmds :: "command list" where
  "cmds =
    [\<lparr>cmd_name = ''ls'', cmd_func = Do_ls, cmd_help = ''list all files in the current DF''\<rparr>,
     \<lparr>cmd_name = ''cd'', cmd_func = Do_cd, cmd_help = ''change to another DF''\<rparr>,
     \<lparr>cmd_name = ''cat'', cmd_func = Do_cat, cmd_help = ''print the contents of an EF''\<rparr>,
     \<lparr>cmd_name = ''info'', cmd_func = Do_info, cmd_help = ''display attributes of card file''\<rparr>,
     \<lparr>cmd_name = ''create'', cmd_func = Do_create, cmd_help = ''create a new EF''\<rparr>,
     \<lparr>cmd_name = ''delete'', cmd_func = Do_delete, cmd_help = ''remove an EF/DF''\<rparr>,
     \<lparr>cmd_name = ''rm'', cmd_func = Do_delete, cmd_help = ''remove an EF/DF''\<rparr>,
     \<lparr>cmd_name = ''verify'', cmd_func = Do_verify, cmd_help = ''present a PIN or key to the card''\<rparr>,
     \<lparr>cmd_name = ''change'', cmd_func = Do_change, cmd_help = ''change a PIN''\<rparr>,
     \<lparr>cmd_name = ''unblock'', cmd_func = Do_unblock, cmd_help = ''unblock a PIN''\<rparr>,
     \<lparr>cmd_name = ''put'', cmd_func = Do_put, cmd_help = ''copy a local file to the card''\<rparr>,
     \<lparr>cmd_name = ''get'', cmd_func = Do_get, cmd_help = ''copy an EF to a local file''\<rparr>,
     \<lparr>cmd_name = ''do_get'', cmd_func = Do_get_data, cmd_help = ''get a data object''\<rparr>,
     \<lparr>cmd_name = ''do_put'', cmd_func = Do_put_data, cmd_help = ''put a data object''\<rparr>,
     \<lparr>cmd_name = ''mkdir'', cmd_func = Do_mkdir, cmd_help = ''create a DF''\<rparr>,
     \<lparr>cmd_name = ''erase'', cmd_func = Do_erase, cmd_help = ''erase card''\<rparr>,
     \<lparr>cmd_name = ''random'', cmd_func = Do_random, cmd_help = ''obtain N random bytes from card''\<rparr>,
     \<lparr>cmd_name = ''quit'', cmd_func = Do_quit, cmd_help = ''quit this program''\<rparr>,
     \<lparr>cmd_name = ''exit'', cmd_func = Do_quit, cmd_help = ''quit this program''\<rparr>,
     \<lparr>cmd_name = ''update_record'', cmd_func = Do_update_record, cmd_help = ''update record''\<rparr>,
     \<lparr>cmd_name = ''update_binary'', cmd_func = Do_update_binary, cmd_help = ''update binary''\<rparr>,
     \<lparr>cmd_name = ''debug'', cmd_func = Do_debug, cmd_help = ''set the debug level''\<rparr>,
     \<lparr>cmd_name = ''apdu'', cmd_func = Do_apdu, cmd_help = ''send a custom apdu command''\<rparr>,
     \<lparr>cmd_name = ''asn1'', cmd_func = Do_asn1, cmd_help = ''decode an asn1 file''\<rparr>]"

text \<open>
  The loop of \<^verbatim>\<open>ambiguous_match\<close> with its two variables, then the function: the lines
  it prints and the entry it returns (\<open>None\<close> is \<^verbatim>\<open>NULL\<close>).
\<close>

fun ambiguous_match_loop ::
  "command list \<Rightarrow> string \<Rightarrow> command option \<Rightarrow> nat \<Rightarrow> command option \<times> nat" where
  "ambiguous_match_loop [] cmd last_match matches = (last_match, matches)"
| "ambiguous_match_loop (entry # table) cmd last_match matches =
     (if strncasecmp cmd (cmd_name entry) (length cmd)
      then ambiguous_match_loop table cmd (Some entry) (matches + 1)
      else ambiguous_match_loop table cmd last_match matches)"

definition ambiguous_match :: "command list \<Rightarrow> string \<Rightarrow> string list \<times> command option" where
  "ambiguous_match table cmd =
     (case ambiguous_match_loop table cmd None 0 of
        (last_match, matches) \<Rightarrow>
          if matches > 1 then ([''Ambiguous command: '' @ cmd], None)
          else ([], last_match))"

text \<open>\<^verbatim>\<open>usage\<close> (lines 1491-1498): the lines it prints, \<^verbatim>\<open>%-16s\<close> padding the name.\<close>

definition usage :: "string list" where
  "usage = ''Supported commands:'' #
     map (\<lambda>c. ''  '' @ cmd_name c @ replicate (16 - length (cmd_name c)) CHR '' '' @ '' '' @ cmd_help c)
       cmds"

text \<open>
  \<^verbatim>\<open>parse_line\<close> (lines 1500-1523): the words found, their number being the value
  returned; no word at all when a quoted word is not closed (\<^verbatim>\<open>return 0\<close>). The first
  argument counts the rounds that are left of the \<^verbatim>\<open>for\<close> loop. Each word ends where
  the function writes a NUL over the character that follows it.
\<close>

definition is_blank :: "char \<Rightarrow> bool" where
  "is_blank c = (c = CHR '' '' \<or> c = CHR 0x09 \<or> c = CHR 0x0A)"

fun parse_line_loop :: "nat \<Rightarrow> string \<Rightarrow> string list \<Rightarrow> string list" where
  "parse_line_loop 0 inp argv = argv"
| "parse_line_loop (Suc k) inp argv =
     (case dropWhile is_blank inp of
        [] \<Rightarrow> argv
      | c # rest \<Rightarrow>
          if c = dquote then
            (case dropWhile (\<lambda>x. x \<noteq> dquote) rest of
               [] \<Rightarrow> []
             | q # after \<Rightarrow>
                 parse_line_loop k (tl after)
                   (argv @ [c # takeWhile (\<lambda>x. x \<noteq> dquote) rest @ [q]]))
          else
            parse_line_loop k (tl (dropWhile (\<lambda>x. \<not> is_blank x) (c # rest)))
              (argv @ [takeWhile (\<lambda>x. \<not> is_blank x) (c # rest)]))"

definition parse_line :: "string \<Rightarrow> nat \<Rightarrow> string list" where
  "parse_line inp maxargc = parse_line_loop maxargc inp []"

text \<open>
  One round of the loop of \<^verbatim>\<open>main\<close> after the line was read (lines 1668-1678): the
  lines printed by the dispatch, and the handler called with its arguments, if any.
\<close>

definition main_dispatch :: "string \<Rightarrow> string list \<times> (handler \<times> string list) option" where
  "main_dispatch line =
     (let cargv = parse_line line 260 in
      if length cargv < 1 then ([], None)
      else
        (case ambiguous_match cmds (cargv ! 0) of
           (printed, None) \<Rightarrow> (printed @ usage, None)
         | (printed, Some cmd) \<Rightarrow> (printed, Some (cmd_func cmd, tl cargv))))"

subsection \<open>A library and a card to run the model on\<close>

text \<open>
  Modelled from the spec: the helpers of libopensc are not under src/. The text 3F00
  is the well-known root id and formats to the root path of length 2; appending an id
  adds it as the new trailing component; an unquoted key value is strict hex of even
  length, whose bytes the usage texts separate by colons. \<open>sscanf_02X_02X\<close> is answered
  for four hexadecimal digits only. This library is used to run the model on concrete
  inputs, the statements about the shell hold for every library.
\<close>

definition model_lib :: lib where
  "model_lib =
    \<lparr> sc_format_path = (\<lambda>s p.
         (let h = hex2binary SC_MAX_PATH_SIZE s in
          zero_path\<lparr> pvalue := store_at_start (written h) (pvalue zero_path),
                     plen := ret h, ptype := SC_PATH_TYPE_PATH \<rparr>)),
      sc_append_path_id = (\<lambda>p id.
         if plen p + length id > SC_MAX_PATH_SIZE then p
         else p\<lparr> pvalue := take (plen p) (pvalue p) @ id @ drop (plen p + length id) (pvalue p),
                 plen := plen p + length id \<rparr>),
      sc_path_set = (\<lambda>t id idx cnt.
         if length id > SC_MAX_PATH_SIZE then None
         else Some (zero_path\<lparr> pvalue := store_at_start id (pvalue zero_path),
                               plen := length id, ptype := t \<rparr>)),
      sc_hex_to_bin = (\<lambda>s n.
         (let t = filter (\<lambda>c. c \<noteq> CHR '':'') s in
          if \<not> list_all isxdigit t \<or> odd (length t) \<or> n < length t div 2 then (- 1, [])
          else (0, nibble_pairs (map hex_digit_value t)))),
      sscanf_02X_02X = (\<lambda>s.
         if length s = 4 \<and> list_all isxdigit s
         then Some (unat (push_bit 4 (hex_digit_value (s ! 0)) OR hex_digit_value (s ! 1)),
                    unat (push_bit 4 (hex_digit_value (s ! 2)) OR hex_digit_value (s ! 3)))
         else None),
      fopen = (\<lambda>name mode. True) \<rparr>"

text \<open>
  A card without a state on which every call succeeds: the directory listing is
  \<open>listing\<close>, every file selected is a working EF of \<open>fsize\<close> bytes, and a read returns at
  most \<open>chunk\<close> bytes.
\<close>

definition test_card :: "bool \<Rightarrow> u8 list \<Rightarrow> nat \<Rightarrow> nat \<Rightarrow> unit card_ops" where
  "test_card belpic listing fsize chunk =
    \<lparr> sc_list_files = (\<lambda>c n. (Inr (take n listing), c)),
      sc_select_file = (\<lambda>c p want.
         (Inr \<lparr>file_id = 0, file_type = SC_FILE_TYPE_WORKING_EF, file_size = fsize\<rparr>, c)),
      sc_read_binary = (\<lambda>c idx n. (Inr (replicate (min n chunk) 0), c)),
      sc_pin_cmd = (\<lambda>c d. ((0, - 1), c)),
      sc_change_reference_data = (\<lambda>c t ref old new. ((0, - 1), c)),
      sc_reset_retry_counter = (\<lambda>c t ref puk new. (0, c)),
      is_belpic_eid = belpic,
      reader_has_pin_pad = False \<rparr>"

definition root_path :: sc_path where
  "root_path = zero_path\<lparr> pvalue := store_at_start [0x3F, 0x00] (pvalue zero_path),
                          plen := 2, ptype := SC_PATH_TYPE_PATH \<rparr>"

definition start_world :: "sc_path \<Rightarrow> unit world" where
  "start_world p = \<lparr> card_state = (), current_path = p, current_file = None, trace = [] \<rparr>"

subsection \<open>Notions used to state the properties\<close>

text \<open>A text occurs somewhere in a line.\<close>

fun has_infix :: "string \<Rightarrow> string \<Rightarrow> bool" where
  "has_infix sub [] = (sub = [])"
| "has_infix sub (c # s) = (take (length sub) (c # s) = sub \<or> has_infix sub s)"

text \<open>
  The matching rule in the words of the specification: the word typed is a prefix of
  the command name, up to case; and the entries of a table that it selects.
\<close>

definition prefix_nocase :: "string \<Rightarrow> string \<Rightarrow> bool" where
  "prefix_nocase cmd name =
     (length cmd \<le> length name \<and> map tolower_c cmd = map tolower_c (take (length cmd) name))"

definition candidates :: "command list \<Rightarrow> string \<Rightarrow> command list" where
  "candidates table cmd = filter (\<lambda>entry. prefix_nocase cmd (cmd_name entry)) table"

text \<open>
  The file selected on the card, as far as the calls tell: the path of the last
  \<^verbatim>\<open>sc_select_file\<close> that succeeded, if there was one.
\<close>

fun select_effect :: "sc_path option \<Rightarrow> event \<Rightarrow> sc_path option" where
  "select_effect s (Ev_select_file p want (Inr f)) = Some p"
| "select_effect s e = s"

definition selected_on_card :: "event list \<Rightarrow> sc_path option" where
  "selected_on_card evs = foldl select_effect None evs"

text \<open>
  A run of calls in which each selection that asks for the file is followed at once by
  a successful selection of the path \<open>cp\<close>, and nothing else happens.
\<close>

fun reselected :: "sc_path \<Rightarrow> event list \<Rightarrow> bool" where
  "reselected cp [] = True"
| "reselected cp (Ev_select_file p True r # Ev_select_file q False (Inr f) # evs) =
     (q = cp \<and> reselected cp evs)"
| "reselected cp evs = False"

text \<open>
  For the chunked read: the bytes an event brought from the card, whether a request
  stays within a bound, whether a read was answered in full, and whether the last
  call of a run is a read that was answered with no bytes.
\<close>

fun received :: "event \<Rightarrow> nat" where
  "received (Ev_read_binary idx n (Inr data)) = length data"
| "received e = 0"

definition bytes_received :: "event list \<Rightarrow> nat" where
  "bytes_received evs = sum_list (map received evs)"

fun request_within :: "nat \<Rightarrow> event \<Rightarrow> bool" where
  "request_within b (Ev_read_binary idx n r) = (n \<le> b)"
| "request_within b e = True"

fun full_read :: "event \<Rightarrow> bool" where
  "full_read (Ev_read_binary idx n (Inr data)) = (length data = n)"
| "full_read (Ev_read_binary idx n (Inl r)) = False"
| "full_read e = True"

fun ends_with_empty_read :: "event list \<Rightarrow> bool" where
  "ends_with_empty_read [] = False"
| "ends_with_empty_read [Ev_read_binary idx n (Inr data)] = (data = [])"
| "ends_with_empty_read [e] = False"
| "ends_with_empty_read (e # evs) = ends_with_empty_read evs"

section \<open>Properties\<close>

subsection \<open>hex2binary\<close>

lemma digits_run_full: "digits_run ds out 0 False = (out, 0, False)"
  by (cases ds) simp_all

lemma hex2binary_loop_digits_run:
  "hex2binary_loop p out len s = digits_run (hex_digits p) out len s"
  by (induction p arbitrary: out len s) (auto simp: hex_digits_def digits_run_full)

lemma digits_run_even:
  "digits_run ds out len False =
     (let d = take (2 * len) ds in
      (out @ nibble_pairs d @ (if odd (length d) then [last d] else []),
       len - (length d + 1) div 2, odd (length d)))"
proof (induction ds arbitrary: out len rule: nibble_pairs.induct)
  case (1 h l ds)
  show ?case
  proof (cases len)
    case 0
    then show ?thesis by simp
  next
    case (Suc k)
    then show ?thesis using 1[of "out @ [push_bit 4 h OR l]" k]
      by (simp add: Let_def)
  qed
next
  case (2 h)
  then show ?case by (cases len) (simp_all add: Let_def)
next
  case 3
  then show ?case by simp
qed

lemma hex2binary_eq:
  "hex2binary outlen inp =
     (let d = take (2 * outlen) (hex_digits inp) in
      if odd (length d) then Hex2binary True 0 (nibble_pairs d @ [last d])
      else Hex2binary False (length d div 2) (nibble_pairs d))"
  by (simp add: hex2binary_def hex2binary_loop_digits_run digits_run_even Let_def)

lemma length_nibble_pairs: "length (nibble_pairs ds) = length ds div 2"
  by (induction ds rule: nibble_pairs.induct) simp_all

text \<open>
  C6. \<^verbatim>\<open>hex2binary\<close> skips every character that is not a hex digit. A text with \<open>2n\<close>
  hex digits gives exactly \<open>n\<close> bytes when \<open>n\<close> is within the maximum output length.
  An odd number of hex digits is an error, with the value 0 returned, when fewer than
  twice the maximum length of digits are present. With at least twice the maximum
  length of digits the decoding stops when the output is full: it returns that many
  bytes and no error, whatever follows.
\<close>

theorem hex2binary_within_outlen:
  "(length (filter isxdigit inp) = 2 * n \<and> n \<le> outlen \<longrightarrow>
      hex2binary outlen inp = Hex2binary False n (nibble_pairs (hex_digits inp)) \<and>
      length (nibble_pairs (hex_digits inp)) = n) \<and>
   (odd (length (filter isxdigit inp)) \<and> length (filter isxdigit inp) < 2 * outlen \<longrightarrow>
      odd_error (hex2binary outlen inp) \<and> ret (hex2binary outlen inp) = 0) \<and>
   (2 * outlen \<le> length (filter isxdigit inp) \<longrightarrow>
      hex2binary outlen inp =
        Hex2binary False outlen (nibble_pairs (take (2 * outlen) (hex_digits inp))))"
  by (auto simp: hex2binary_eq Let_def hex_digits_def length_nibble_pairs min_def)

theorem hex2binary_within_outlen_witness:
  "hex2binary 16 ''3f:00'' = Hex2binary False 2 [0x3F, 0x00] \<and>
   odd_error (hex2binary 16 ''3f:0'') \<and> ret (hex2binary 16 ''3f:0'') = 0 \<and>
   hex2binary 1 ''3f:00'' = Hex2binary False 1 [0x3F]"
  using hex2binary_within_outlen [of "''3f:00''" 2 16]
        hex2binary_within_outlen [of "''3f:0''" 0 16]
        hex2binary_within_outlen [of "''3f:00''" 0 1]
  by (simp add: isxdigit_def isdigit_c_def char_code_def hex_digits_def hex_digit_value_def)

theorem hex2binary_truncates_counterexample:
  "length (filter isxdigit ''abcd'') = 2 * 2 \<and> ret (hex2binary 1 ''abcd'') = 1 \<and>
   odd (length (filter isxdigit ''abc'')) \<and> hex2binary 1 ''abc'' = Hex2binary False 1 [0xAB]"
  by (simp add: hex2binary_def isxdigit_def isdigit_c_def char_code_def hex_digit_value_def)

subsection \<open>Dispatch\<close>

lemma strncasecmp_prefix_nocase:
  "strncasecmp cmd name (length cmd) = prefix_nocase cmd name"
proof (induction cmd arbitrary: name)
  case Nil
  then show ?case by (simp add: prefix_nocase_def)
next
  case (Cons c cmd)
  then show ?case by (cases name) (auto simp: prefix_nocase_def)
qed

lemma ambiguous_match_loop_eq:
  "ambiguous_match_loop table cmd last_match matches =
     (if candidates table cmd = [] then last_match else Some (last (candidates table cmd)),
      matches + length (candidates table cmd))"
  by (induction table arbitrary: last_match matches)
     (auto simp: candidates_def strncasecmp_prefix_nocase)

lemma ambiguous_match_eq:
  "ambiguous_match table cmd =
     (case candidates table cmd of
        [] \<Rightarrow> ([], None)
      | [entry] \<Rightarrow> ([], Some entry)
      | _ # _ # _ \<Rightarrow> ([''Ambiguous command: '' @ cmd], None))"
  by (simp add: ambiguous_match_def ambiguous_match_loop_eq split: list.splits)

lemma main_dispatch_eq:
  "main_dispatch line =
     (case parse_line line 260 of
        [] \<Rightarrow> ([], None)
      | cmd # args \<Rightarrow>
         (case candidates cmds cmd of
            [] \<Rightarrow> (usage, None)
          | [entry] \<Rightarrow> ([], Some (cmd_func entry, args))
          | _ # _ # _ \<Rightarrow> ((''Ambiguous command: '' @ cmd) # usage, None)))"
  by (simp add: main_dispatch_def ambiguous_match_eq Let_def split: list.splits)


lemma parse_line_ca: "parse_line ''ca 2F00'' 260 = [''ca'', ''2F00'']"
  by code_simp

lemma parse_line_c: "parse_line ''c'' 260 = [''c'']"
  by code_simp

lemma candidates_cmds_ca:
  "candidates cmds ''ca'' =
     [\<lparr>cmd_name = ''cat'', cmd_func = Do_cat, cmd_help = ''print the contents of an EF''\<rparr>]"
  by code_simp

lemma candidates_cmds_c: "map cmd_name (candidates cmds ''c'') = [''cd'', ''cat'', ''create'', ''change'']"
  by code_simp

lemma candidates_cmds_xyz: "candidates cmds ''xyz'' = []"
  by code_simp

lemma candidates_cat_cd:
  "candidates [\<lparr>cmd_name = ''cat'', cmd_func = Do_cat, cmd_help = h1\<rparr>,
               \<lparr>cmd_name = ''cd'', cmd_func = Do_cd, cmd_help = h2\<rparr>] ''c'' =
     [\<lparr>cmd_name = ''cat'', cmd_func = Do_cat, cmd_help = h1\<rparr>,
      \<lparr>cmd_name = ''cd'', cmd_func = Do_cd, cmd_help = h2\<rparr>]"
  "candidates [\<lparr>cmd_name = ''cat'', cmd_func = Do_cat, cmd_help = h1\<rparr>,
               \<lparr>cmd_name = ''cd'', cmd_func = Do_cd, cmd_help = h2\<rparr>] ''ca'' =
     [\<lparr>cmd_name = ''cat'', cmd_func = Do_cat, cmd_help = h1\<rparr>]"
  by (simp_all add: candidates_def prefix_nocase_def tolower_c_def char_code_def)

lemma usage_lines:
  "usage =
     [''Supported commands:'',
      ''  ls               list all files in the current DF'',
      ''  cd               change to another DF'',
      ''  cat              print the contents of an EF'',
      ''  info             display attributes of card file'',
      ''  create           create a new EF'',
      ''  delete           remove an EF/DF'',
      ''  rm               remove an EF/DF'',
      ''  verify           present a PIN or key to the card'',
      ''  change           change a PIN'',
      ''  unblock          unblock a PIN'',
      ''  put              copy a local file to the card'',
      ''  get              copy an EF to a local file'',
      ''  do_get           get a data object'',
      ''  do_put           put a data object'',
      ''  mkdir            create a DF'',
      ''  erase            erase card'',
      ''  random           obtain N random bytes from card'',
      ''  quit             quit this program'',
      ''  exit             quit this program'',
      ''  update_record    update record'',
      ''  update_binary    update binary'',
      ''  debug            set the debug level'',
      ''  apdu             send a custom apdu command'',
      ''  asn1             decode an asn1 file'']"
  by code_simp

text \<open>
  C4. The word typed is matched as a prefix, up to case, against the names of the
  table. No match: nothing is called, and what is printed is the list of the supported
  commands, the heading and one line for each entry of the table, and nothing else.
  More than one match: the message about an ambiguous command, which names the word,
  and then that list are printed, nothing is called. One match: the handler of that
  entry is called with the words that follow. With a table of \<open>cat\<close> and \<open>cd\<close>, and
  with the table of the shell, \<open>c\<close> is ambiguous and \<open>ca\<close> selects \<open>cat\<close>.
\<close>

theorem dispatch_by_prefix:
  "main_dispatch line =
     (case parse_line line 260 of
        [] \<Rightarrow> ([], None)
      | cmd # args \<Rightarrow>
         (case candidates cmds cmd of
            [] \<Rightarrow> (usage, None)
          | [entry] \<Rightarrow> ([], Some (cmd_func entry, args))
          | _ # _ # _ \<Rightarrow> ((''Ambiguous command: '' @ cmd) # usage, None))) \<and>
   usage =
     [''Supported commands:'',
      ''  ls               list all files in the current DF'',
      ''  cd               change to another DF'',
      ''  cat              print the contents of an EF'',
      ''  info             display attributes of card file'',
      ''  create           create a new EF'',
      ''  delete           remove an EF/DF'',
      ''  rm               remove an EF/DF'',
      ''  verify           present a PIN or key to the card'',
      ''  change           change a PIN'',
      ''  unblock          unblock a PIN'',
      ''  put              copy a local file to the card'',
      ''  get              copy an EF to a local file'',
      ''  do_get           get a data object'',
      ''  do_put           put a data object'',
      ''  mkdir            create a DF'',
      ''  erase            erase card'',
      ''  random           obtain N random bytes from card'',
      ''  quit             quit this program'',
      ''  exit             quit this program'',
      ''  update_record    update record'',
      ''  update_binary    update binary'',
      ''  debug            set the debug level'',
      ''  apdu             send a custom apdu command'',
      ''  asn1             decode an asn1 file''] \<and>
   ambiguous_match table cmd =
     (case candidates table cmd of
        [] \<Rightarrow> ([], None)
      | [entry] \<Rightarrow> ([], Some entry)
      | _ # _ # _ \<Rightarrow> ([''Ambiguous command: '' @ cmd], None)) \<and>
   ambiguous_match [\<lparr>cmd_name = ''cat'', cmd_func = Do_cat, cmd_help = h1\<rparr>,
                    \<lparr>cmd_name = ''cd'', cmd_func = Do_cd, cmd_help = h2\<rparr>] ''c'' =
     ([''Ambiguous command: c''], None) \<and>
   ambiguous_match [\<lparr>cmd_name = ''cat'', cmd_func = Do_cat, cmd_help = h1\<rparr>,
                    \<lparr>cmd_name = ''cd'', cmd_func = Do_cd, cmd_help = h2\<rparr>] ''ca'' =
     ([], Some \<lparr>cmd_name = ''cat'', cmd_func = Do_cat, cmd_help = h1\<rparr>) \<and>
   main_dispatch ''c'' = (''Ambiguous command: c'' # usage, None) \<and>
   main_dispatch ''ca 2F00'' = ([], Some (Do_cat, [''2F00'']))"
proof -
  have c: "main_dispatch ''c'' = (''Ambiguous command: c'' # usage, None)"
    using candidates_cmds_c
    by (auto simp: main_dispatch_eq parse_line_c split: list.splits)
  have ca: "main_dispatch ''ca 2F00'' = ([], Some (Do_cat, [''2F00'']))"
    by (simp add: main_dispatch_eq parse_line_ca candidates_cmds_ca)
  show ?thesis
    by (intro conjI main_dispatch_eq usage_lines ambiguous_match_eq c ca)
       (simp_all add: ambiguous_match_eq candidates_cat_cd)
qed

theorem dispatch_by_prefix_witness:
  "main_dispatch ''qq'' = (usage, None) \<and> hd usage = ''Supported commands:'' \<and>
   length usage = 25 \<and>
   main_dispatch ''CA 2F00'' = ([], Some (Do_cat, [''2F00'']))"
proof -
  have p1: "parse_line ''qq'' 260 = [''qq'']" by code_simp
  have p2: "parse_line ''CA 2F00'' 260 = [''CA'', ''2F00'']" by code_simp
  have c1: "candidates cmds ''qq'' = []" by code_simp
  have c2: "candidates cmds ''CA'' =
     [\<lparr>cmd_name = ''cat'', cmd_func = Do_cat, cmd_help = ''print the contents of an EF''\<rparr>]"
    by code_simp
  have d1: "main_dispatch ''qq'' = (usage, None)"
    using dispatch_by_prefix [of "''qq''" "[]" "[]" "[]" "[]"] by (simp add: p1 c1)
  have d2: "main_dispatch ''CA 2F00'' = ([], Some (Do_cat, [''2F00'']))"
    using dispatch_by_prefix [of "''CA 2F00''" "[]" "[]" "[]" "[]"] by (simp add: p2 c2)
  note us = dispatch_by_prefix [of "''qq''" "[]" "[]" "[]" "[]", THEN conjunct2, THEN conjunct1]
  have u: "hd usage = ''Supported commands:'' \<and> length usage = 25"
    unfolding us by simp
  show ?thesis using d1 d2 u by simp
qed

text \<open>
  The word \<open>xyz\<close> matches no command. What the shell prints then is the list of the
  commands alone: no line of it speaks of an unknown command or names the word.
\<close>

theorem unknown_command_counterexample:
  "candidates cmds ''xyz'' = [] \<and>
   main_dispatch ''xyz'' =
     ([''Supported commands:'',
      ''  ls               list all files in the current DF'',
      ''  cd               change to another DF'',
      ''  cat              print the contents of an EF'',
      ''  info             display attributes of card file'',
      ''  create           create a new EF'',
      ''  delete           remove an EF/DF'',
      ''  rm               remove an EF/DF'',
      ''  verify           present a PIN or key to the card'',
      ''  change           change a PIN'',
      ''  unblock          unblock a PIN'',
      ''  put              copy a local file to the card'',
      ''  get              copy an EF to a local file'',
      ''  do_get           get a data object'',
      ''  do_put           put a data object'',
      ''  mkdir            create a DF'',
      ''  erase            erase card'',
      ''  random           obtain N random bytes from card'',
      ''  quit             quit this program'',
      ''  exit             quit this program'',
      ''  update_record    update record'',
      ''  update_binary    update binary'',
      ''  debug            set the debug level'',
      ''  apdu             send a custom apdu command'',
      ''  asn1             decode an asn1 file''],
      None) \<and>
   list_all (\<lambda>line. \<not> has_infix ''nknown'' line \<and> \<not> has_infix ''xyz'' line)
     (fst (main_dispatch ''xyz''))"
  by code_simp

subsection \<open>PIN commands\<close>

lemma CHV2_accepted: "strncasecmp ''CHV2'' ''CHV'' 3 \<and> sscanf_d (drop 3 ''CHV2'') = Some 2"
  by code_simp

lemma read_key_value_empty_quotes: "read_key_value l n [dquote, dquote] = Inr []"
  by (simp add: read_key_value_def)

lemma read_key_value_hex:
  "sc_hex_to_bin l (c # s) n = (0, bs) \<Longrightarrow> c \<noteq> dquote \<Longrightarrow> read_key_value l n (c # s) = Inr bs"
  by (simp add: read_key_value_def)

text \<open>
  C1. Whenever the unblock code \<open>00:00:00:00:00:00\<close> is accepted as hex,
  \<open>unblock CHV2 00:00:00:00:00:00 ""\<close> calls \<^verbatim>\<open>sc_reset_retry_counter\<close> once, with a
  new PIN that is present and of length zero, and \<open>unblock CHV2 00:00:00:00:00:00\<close>
  calls it once with a new PIN that is absent (\<^verbatim>\<open>NULL\<close>); the two arguments differ.
  The two lines are split into these words by the shell.
\<close>

theorem unblock_empty_is_not_absent:
  assumes "sc_hex_to_bin l ''00:00:00:00:00:00'' 30 = (0, puk)"
  shows "main_dispatch (''unblock CHV2 00:00:00:00:00:00 '' @ [dquote, dquote]) =
           ([], Some (Do_unblock, [''CHV2'', ''00:00:00:00:00:00'', [dquote, dquote]])) \<and>
         main_dispatch ''unblock CHV2 00:00:00:00:00:00'' =
           ([], Some (Do_unblock, [''CHV2'', ''00:00:00:00:00:00''])) \<and>
         trace (snd (do_unblock ops l w [''CHV2'', ''00:00:00:00:00:00'', [dquote, dquote]])) =
           trace w @ [Ev_reset_retry_counter SC_AC_CHV 2 (Some puk, length puk) (Some [], 0)
             (fst (sc_reset_retry_counter ops (card_state w) SC_AC_CHV 2
                     (Some puk, length puk) (Some [], 0)))] \<and>
         trace (snd (do_unblock ops l w [''CHV2'', ''00:00:00:00:00:00''])) =
           trace w @ [Ev_reset_retry_counter SC_AC_CHV 2 (Some puk, length puk) (None, 0)
             (fst (sc_reset_retry_counter ops (card_state w) SC_AC_CHV 2
                     (Some puk, length puk) (None, 0)))] \<and>
         (Some ([] :: u8 list), 0 :: nat) \<noteq> (None, 0)"
proof -
  have d1: "main_dispatch (''unblock CHV2 00:00:00:00:00:00 '' @ [dquote, dquote]) =
           ([], Some (Do_unblock, [''CHV2'', ''00:00:00:00:00:00'', [dquote, dquote]]))"
    by code_simp
  have d2: "main_dispatch ''unblock CHV2 00:00:00:00:00:00'' =
           ([], Some (Do_unblock, [''CHV2'', ''00:00:00:00:00:00'']))"
    by code_simp
  have k: "read_key_value l 30 ''00:00:00:00:00:00'' = Inr puk"
    using assms by (simp add: read_key_value_def dquote_def)
  have u1: "trace (snd (do_unblock ops l w [''CHV2'', ''00:00:00:00:00:00'', [dquote, dquote]])) =
           trace w @ [Ev_reset_retry_counter SC_AC_CHV 2 (Some puk, length puk) (Some [], 0)
             (fst (sc_reset_retry_counter ops (card_state w) SC_AC_CHV 2
                     (Some puk, length puk) (Some [], 0)))]"
    using CHV2_accepted k
    by (auto simp: do_unblock_def read_key_value_empty_quotes call_reset_retry_counter_def
          split: prod.splits)
  have u2: "trace (snd (do_unblock ops l w [''CHV2'', ''00:00:00:00:00:00''])) =
           trace w @ [Ev_reset_retry_counter SC_AC_CHV 2 (Some puk, length puk) (None, 0)
             (fst (sc_reset_retry_counter ops (card_state w) SC_AC_CHV 2
                     (Some puk, length puk) (None, 0)))]"
    using CHV2_accepted k
    by (auto simp: do_unblock_def call_reset_retry_counter_def split: prod.splits)
  show ?thesis using d1 d2 u1 u2 by simp
qed

theorem unblock_empty_is_not_absent_witness:
  "sc_hex_to_bin model_lib ''00:00:00:00:00:00'' 30 = (0, replicate 6 0) \<and>
   trace (snd (do_unblock (test_card False [] 4 256) model_lib (start_world root_path)
            [''CHV2'', ''00:00:00:00:00:00'', [dquote, dquote]])) =
     [Ev_reset_retry_counter SC_AC_CHV 2 (Some (replicate 6 0), 6) (Some [], 0) 0] \<and>
   trace (snd (do_unblock (test_card False [] 4 256) model_lib (start_world root_path)
            [''CHV2'', ''00:00:00:00:00:00''])) =
     [Ev_reset_retry_counter SC_AC_CHV 2 (Some (replicate 6 0), 6) (None, 0) 0]"
proof -
  have h: "sc_hex_to_bin model_lib ''00:00:00:00:00:00'' 30 = (0, replicate 6 0)"
    by code_simp
  show ?thesis
    using h unblock_empty_is_not_absent [OF h, of "test_card False [] 4 256" "start_world root_path"]
    by (simp add: test_card_def start_world_def)
qed







subsection \<open>The reference token of the PIN commands\<close>

lemma strncasecmp_commute: "strncasecmp a b n = strncasecmp b a n"
  by (induction a b n rule: strncasecmp.induct) auto

lemma strncasecmp_name3:
  "length name = 3 \<Longrightarrow> strncasecmp tok name 3 = prefix_nocase name tok"
  using strncasecmp_prefix_nocase [of name tok] by (simp add: strncasecmp_commute [of tok name])

lemma find_pin_type_typeNames:
  "find_pin_type typeNames tok =
     (if prefix_nocase ''CHV'' tok then SC_AC_CHV
      else if prefix_nocase ''KEY'' tok \<or> prefix_nocase ''AUT'' tok then SC_AC_AUT
      else if prefix_nocase ''PRO'' tok then SC_AC_PRO
      else SC_AC_NONE)"
  by (simp add: typeNames_def strncasecmp_name3)

lemma isdigit_c_not_skipped:
  "isdigit_c c \<Longrightarrow> \<not> isspace_c c \<and> c \<noteq> CHR ''-'' \<and> c \<noteq> CHR ''+''"
  by (auto simp: isdigit_c_def isspace_c_def char_code_def)

lemma sscanf_d_digits:
  "s \<noteq> [] \<and> isdigit_c (hd s) \<longrightarrow>
     sscanf_d s =
       Some (int_of_long (min (2 ^ 63 - 1) (decimal_value (takeWhile isdigit_c s))))"
  using isdigit_c_not_skipped [of "hd s"]
  by (cases s) (auto simp: sscanf_d_def strtol_value_def Let_def)

lemma int_of_long_small: "0 \<le> v \<Longrightarrow> v < 2 ^ 31 \<Longrightarrow> int_of_long v = v"
  by (simp add: int_of_long_def)

lemma foldl_decimal_nonneg:
  "0 \<le> a \<Longrightarrow> 0 \<le> foldl (\<lambda>a c. 10 * a + int (char_code c - 48)) a ds"
  by (induction ds arbitrary: a) simp_all

lemma decimal_value_nonneg: "0 \<le> decimal_value ds"
  by (simp add: decimal_value_def foldl_decimal_nonneg)

lemma sscanf_d_small:
  "s \<noteq> [] \<and> isdigit_c (hd s) \<and> decimal_value (takeWhile isdigit_c s) < 2 ^ 31 \<longrightarrow>
     sscanf_d s = Some (decimal_value (takeWhile isdigit_c s))"
proof
  assume h: "s \<noteq> [] \<and> isdigit_c (hd s) \<and> decimal_value (takeWhile isdigit_c s) < 2 ^ 31"
  let ?n = "decimal_value (takeWhile isdigit_c s)"
  have m: "min (2 ^ 63 - 1) ?n = ?n"
    using h by simp
  have "int_of_long ?n = ?n"
    using h decimal_value_nonneg [of "takeWhile isdigit_c s"] by (intro int_of_long_small) simp_all
  then show "sscanf_d s = Some ?n"
    using sscanf_d_digits [of s] h m by simp
qed

lemma sscanf_d_no_number:
  "s = [] \<or> \<not> isdigit_c (hd s) \<and> \<not> isspace_c (hd s) \<and> hd s \<noteq> CHR ''-'' \<and> hd s \<noteq> CHR ''+'' \<longrightarrow>
     sscanf_d s = None"
  by (cases s) (auto simp: sscanf_d_def Let_def)

lemma do_verify_token:
  "length argv = 1 \<or> length argv = 2 \<longrightarrow>
     (find_pin_type typeNames (argv ! 0) = SC_AC_NONE \<longrightarrow>
        do_verify ops l w argv = (Inl Invalid_type, w)) \<and>
     (find_pin_type typeNames (argv ! 0) \<noteq> SC_AC_NONE \<and> sscanf_d (drop 3 (argv ! 0)) = None \<longrightarrow>
        do_verify ops l w argv = (Inl Invalid_key_reference, w)) \<and>
     (\<forall>ref. find_pin_type typeNames (argv ! 0) \<noteq> SC_AC_NONE \<and>
            sscanf_d (drop 3 (argv ! 0)) = Some ref \<longrightarrow>
        trace (snd (do_verify ops l w argv)) = trace w \<or>
        (\<exists>d r. trace (snd (do_verify ops l w argv)) = trace w @ [Ev_pin_cmd d r] \<and>
               pin_type d = find_pin_type typeNames (argv ! 0) \<and> pin_reference d = ref))"
  by (auto simp: do_verify_def call_pin_cmd_def Let_def
        split: option.splits sum.splits prod.splits if_splits)

lemma do_change_token:
  "1 \<le> length argv \<and> length argv \<le> 3 \<longrightarrow>
     (\<not> prefix_nocase ''CHV'' (argv ! 0) \<longrightarrow> do_change ops l w argv = (Inl Invalid_type, w)) \<and>
     (prefix_nocase ''CHV'' (argv ! 0) \<and> sscanf_d (drop 3 (argv ! 0)) = None \<longrightarrow>
        do_change ops l w argv = (Inl Invalid_key_reference, w)) \<and>
     (\<forall>ref. prefix_nocase ''CHV'' (argv ! 0) \<and> sscanf_d (drop 3 (argv ! 0)) = Some ref \<longrightarrow>
        trace (snd (do_change ops l w argv)) = trace w \<or>
        (\<exists>old new r. trace (snd (do_change ops l w argv)) =
                        trace w @ [Ev_change_reference_data SC_AC_CHV ref old new r]))"
  by (auto simp: do_change_def call_change_reference_data_def Let_def strncasecmp_name3
        split: option.splits sum.splits prod.splits if_splits)

lemma do_unblock_token:
  "1 \<le> length argv \<and> length argv \<le> 3 \<longrightarrow>
     (\<not> prefix_nocase ''CHV'' (argv ! 0) \<longrightarrow> do_unblock ops l w argv = (Inl Invalid_type, w)) \<and>
     (prefix_nocase ''CHV'' (argv ! 0) \<and> sscanf_d (drop 3 (argv ! 0)) = None \<longrightarrow>
        do_unblock ops l w argv = (Inl Invalid_key_reference, w)) \<and>
     (\<forall>ref. prefix_nocase ''CHV'' (argv ! 0) \<and> sscanf_d (drop 3 (argv ! 0)) = Some ref \<longrightarrow>
        trace (snd (do_unblock ops l w argv)) = trace w \<or>
        (\<exists>puk new r. trace (snd (do_unblock ops l w argv)) =
                        trace w @ [Ev_reset_retry_counter SC_AC_CHV ref puk new r]))"
  by (auto simp: do_unblock_def call_reset_retry_counter_def Let_def strncasecmp_name3
        split: option.splits sum.splits prod.splits if_splits)

text \<open>
  C8. The token that names the PIN or key: \<^verbatim>\<open>do_verify\<close> compares its first three
  characters, up to case, with \<open>CHV\<close>, \<open>KEY\<close>, \<open>AUT\<close> and \<open>PRO\<close> (\<open>KEY\<close> and \<open>AUT\<close> give
  the same type), \<^verbatim>\<open>do_change\<close> and \<^verbatim>\<open>do_unblock\<close> with \<open>CHV\<close> alone. A token with
  another start is rejected as an invalid type. The reference is what \<^verbatim>\<open>sscanf\<close>
  stores with \<^verbatim>\<open>%d\<close> from what follows the third character. A token that goes on
  with a digit has the number made of its digits as the reference when that number is
  below \<open>2^31\<close>; a larger number is cut to a \<^verbatim>\<open>long\<close> of 64 bits and then to its low
  32 bits, read as a signed number. A token that ends after the third character or
  goes on with a character that is no digit, sign or white space is rejected as an
  invalid key reference. Every call made to the card carries the type and the
  reference read.
\<close>

theorem pin_reference_token:
  "find_pin_type typeNames tok =
     (if prefix_nocase ''CHV'' tok then SC_AC_CHV
      else if prefix_nocase ''KEY'' tok \<or> prefix_nocase ''AUT'' tok then SC_AC_AUT
      else if prefix_nocase ''PRO'' tok then SC_AC_PRO
      else SC_AC_NONE) \<and>
   (length argv = 1 \<or> length argv = 2 \<longrightarrow>
     (find_pin_type typeNames (argv ! 0) = SC_AC_NONE \<longrightarrow>
        do_verify ops l w argv = (Inl Invalid_type, w)) \<and>
     (find_pin_type typeNames (argv ! 0) \<noteq> SC_AC_NONE \<and> sscanf_d (drop 3 (argv ! 0)) = None \<longrightarrow>
        do_verify ops l w argv = (Inl Invalid_key_reference, w)) \<and>
     (\<forall>ref. find_pin_type typeNames (argv ! 0) \<noteq> SC_AC_NONE \<and>
            sscanf_d (drop 3 (argv ! 0)) = Some ref \<longrightarrow>
        trace (snd (do_verify ops l w argv)) = trace w \<or>
        (\<exists>d r. trace (snd (do_verify ops l w argv)) = trace w @ [Ev_pin_cmd d r] \<and>
               pin_type d = find_pin_type typeNames (argv ! 0) \<and> pin_reference d = ref))) \<and>
   (1 \<le> length argv \<and> length argv \<le> 3 \<longrightarrow>
     (\<not> prefix_nocase ''CHV'' (argv ! 0) \<longrightarrow> do_change ops l w argv = (Inl Invalid_type, w)) \<and>
     (prefix_nocase ''CHV'' (argv ! 0) \<and> sscanf_d (drop 3 (argv ! 0)) = None \<longrightarrow>
        do_change ops l w argv = (Inl Invalid_key_reference, w)) \<and>
     (\<forall>ref. prefix_nocase ''CHV'' (argv ! 0) \<and> sscanf_d (drop 3 (argv ! 0)) = Some ref \<longrightarrow>
        trace (snd (do_change ops l w argv)) = trace w \<or>
        (\<exists>old new r. trace (snd (do_change ops l w argv)) =
                        trace w @ [Ev_change_reference_data SC_AC_CHV ref old new r]))) \<and>
   (1 \<le> length argv \<and> length argv \<le> 3 \<longrightarrow>
     (\<not> prefix_nocase ''CHV'' (argv ! 0) \<longrightarrow> do_unblock ops l w argv = (Inl Invalid_type, w)) \<and>
     (prefix_nocase ''CHV'' (argv ! 0) \<and> sscanf_d (drop 3 (argv ! 0)) = None \<longrightarrow>
        do_unblock ops l w argv = (Inl Invalid_key_reference, w)) \<and>
     (\<forall>ref. prefix_nocase ''CHV'' (argv ! 0) \<and> sscanf_d (drop 3 (argv ! 0)) = Some ref \<longrightarrow>
        trace (snd (do_unblock ops l w argv)) = trace w \<or>
        (\<exists>puk new r. trace (snd (do_unblock ops l w argv)) =
                        trace w @ [Ev_reset_retry_counter SC_AC_CHV ref puk new r]))) \<and>
   (s \<noteq> [] \<and> isdigit_c (hd s) \<and> decimal_value (takeWhile isdigit_c s) < 2 ^ 31 \<longrightarrow>
     sscanf_d s = Some (decimal_value (takeWhile isdigit_c s))) \<and>
   (s \<noteq> [] \<and> isdigit_c (hd s) \<longrightarrow>
     sscanf_d s =
       Some (int_of_long (min (2 ^ 63 - 1) (decimal_value (takeWhile isdigit_c s))))) \<and>
   (s = [] \<or> \<not> isdigit_c (hd s) \<and> \<not> isspace_c (hd s) \<and> hd s \<noteq> CHR ''-'' \<and> hd s \<noteq> CHR ''+'' \<longrightarrow>
     sscanf_d s = None)"
  by (intro conjI find_pin_type_typeNames do_verify_token do_change_token do_unblock_token
        sscanf_d_small sscanf_d_digits sscanf_d_no_number)

theorem pin_reference_token_witness:
  "find_pin_type typeNames ''key7'' = SC_AC_AUT \<and>
   do_verify (test_card False [] 4 256) model_lib (start_world root_path) [''PIN1''] =
     (Inl Invalid_type, start_world root_path) \<and>
   do_verify (test_card False [] 4 256) model_lib (start_world root_path) [''PROx''] =
     (Inl Invalid_key_reference, start_world root_path) \<and>
   do_change (test_card False [] 4 256) model_lib (start_world root_path) [''PIN1''] =
     (Inl Invalid_type, start_world root_path) \<and>
   do_unblock (test_card False [] 4 256) model_lib (start_world root_path) [''chv''] =
     (Inl Invalid_key_reference, start_world root_path) \<and>
   sscanf_d ''12'' = Some 12 \<and> sscanf_d ''x'' = None \<and>
   sscanf_d ''4294967298'' = Some 2 \<and> sscanf_d ''2147483648'' = Some (- 2147483648) \<and>
   trace (snd (do_verify (test_card False [] 4 256) model_lib (start_world root_path)
            [''CHV4294967298'', ''31''])) =
     [Ev_pin_cmd \<lparr>pin_type = SC_AC_CHV, pin_reference = 2, use_pinpad = False,
                  pin1 = (Some [0x31], 1)\<rparr> 0]"
proof -
  have p: "\<not> prefix_nocase ''CHV'' ''PIN1''" "\<not> prefix_nocase ''KEY'' ''PIN1''"
    "\<not> prefix_nocase ''AUT'' ''PIN1''" "\<not> prefix_nocase ''PRO'' ''PIN1''"
    "prefix_nocase ''PRO'' ''PROx''" "\<not> prefix_nocase ''CHV'' ''PROx''"
    "\<not> prefix_nocase ''KEY'' ''PROx''" "\<not> prefix_nocase ''AUT'' ''PROx''"
    "prefix_nocase ''CHV'' ''chv''" "prefix_nocase ''KEY'' ''key7''"
    "\<not> prefix_nocase ''CHV'' ''key7''"
    by code_simp+
  have n: "sscanf_d ''x'' = None" "sscanf_d [] = None" "sscanf_d ''12'' = Some 12"
    by code_simp+
  have big: "sscanf_d ''4294967298'' = Some 2" "sscanf_d ''2147483648'' = Some (- 2147483648)"
    "trace (snd (do_verify (test_card False [] 4 256) model_lib (start_world root_path)
            [''CHV4294967298'', ''31''])) =
     [Ev_pin_cmd \<lparr>pin_type = SC_AC_CHV, pin_reference = 2, use_pinpad = False,
                  pin1 = (Some [0x31], 1)\<rparr> 0]"
    by code_simp+
  have f: "find_pin_type typeNames ''PIN1'' = SC_AC_NONE"
    "find_pin_type typeNames ''PROx'' = SC_AC_PRO"
    "find_pin_type typeNames ''key7'' = SC_AC_AUT"
    by code_simp+
  show ?thesis
    using pin_reference_token [of "''key7''" "[''PIN1'']" "test_card False [] 4 256" model_lib
            "start_world root_path" "''12''"]
          pin_reference_token [of "''key7''" "[''PROx'']" "test_card False [] 4 256" model_lib
            "start_world root_path" "''x''"]
          pin_reference_token [of "''key7''" "[''chv'']" "test_card False [] 4 256" model_lib
            "start_world root_path" "''x''"]
    by (simp add: p n f big)
qed

theorem change_rejects_key_counterexample:
  "prefix_nocase ''KEY'' ''KEY1'' \<and> sscanf_d (drop 3 ''KEY1'') = Some 1 \<and>
   do_change (test_card False [] 4 256) model_lib (start_world root_path) [''KEY1'', ''31''] =
     (Inl Invalid_type, start_world root_path) \<and>
   do_unblock (test_card False [] 4 256) model_lib (start_world root_path) [''KEY1'', ''31''] =
     (Inl Invalid_type, start_world root_path) \<and>
   trace (snd (do_verify (test_card False [] 4 256) model_lib (start_world root_path)
            [''KEY1'', ''31''])) =
     [Ev_pin_cmd \<lparr>pin_type = SC_AC_AUT, pin_reference = 1, use_pinpad = False,
                  pin1 = (Some [0x31], 1)\<rparr> 0]"
  by code_simp

subsection \<open>Going up one directory\<close>

lemma call_select_file_eq:
  "call_select_file ops w p want =
     (fst (sc_select_file ops (card_state w) p want),
      w\<lparr>card_state := snd (sc_select_file ops (card_state w) p want),
        trace := trace w @ [Ev_select_file p want (fst (sc_select_file ops (card_state w) p want))]\<rparr>)"
  by (simp add: call_select_file_def split: prod.splits)

lemma do_cd_up_at_root:
  "plen (current_path w) < 4 \<longrightarrow> do_cd ops l w [''..''] = (Returned (Inl Already_in_MF), w)"
  by (simp add: do_cd_def)

lemma do_cd_up_below_root:
  "4 \<le> plen (current_path w) \<longrightarrow>
     (let target = (if ptype (current_path w) = SC_PATH_TYPE_DF_NAME
                    then sc_format_path l ''3F00'' (current_path w)
                    else (current_path w)\<lparr>plen := plen (current_path w) - 2\<rparr>);
          answer = fst (sc_select_file ops (card_state w) target True);
          w' = snd (do_cd ops l w [''..''])
      in trace w' = trace w @ [Ev_select_file target True answer] \<and>
         (ptype (current_path w) \<noteq> SC_PATH_TYPE_DF_NAME \<longrightarrow>
            path_bytes target = take (plen (current_path w) - 2) (path_bytes (current_path w)) \<and>
            ptype target = ptype (current_path w)) \<and>
         (case answer of
            Inl r \<Rightarrow> fst (do_cd ops l w [''..'']) = Returned (Inl (Unable_to_go_up r)) \<and>
                     current_path w' = current_path w \<and> current_file w' = current_file w
          | Inr file \<Rightarrow> fst (do_cd ops l w [''..'']) = Returned (Inr ()) \<and>
                     current_path w' = target \<and> current_file w' = Some file))"
  by (auto simp: do_cd_def call_select_file_eq Let_def path_bytes_def min_def split: sum.splits)

text \<open>
  C3. \<open>cd ..\<close> fails with the message that the shell is already in the MF, without a
  call to the card, whenever the current path has fewer than 4 bytes. Otherwise it
  selects once: the path that \<^verbatim>\<open>sc_format_path\<close> makes of \<open>3F00\<close> when the current
  path is a DF name, else the current path without its last two bytes. When the
  selection succeeds the current path becomes the path selected and the current file
  the file returned; when it fails both stay as they were.
\<close>

theorem do_cd_up:
  "(plen (current_path w) < 4 \<longrightarrow> do_cd ops l w [''..''] = (Returned (Inl Already_in_MF), w)) \<and>
   (4 \<le> plen (current_path w) \<longrightarrow>
     (let target = (if ptype (current_path w) = SC_PATH_TYPE_DF_NAME
                    then sc_format_path l ''3F00'' (current_path w)
                    else (current_path w)\<lparr>plen := plen (current_path w) - 2\<rparr>);
          answer = fst (sc_select_file ops (card_state w) target True);
          w' = snd (do_cd ops l w [''..''])
      in trace w' = trace w @ [Ev_select_file target True answer] \<and>
         (ptype (current_path w) \<noteq> SC_PATH_TYPE_DF_NAME \<longrightarrow>
            path_bytes target = take (plen (current_path w) - 2) (path_bytes (current_path w)) \<and>
            ptype target = ptype (current_path w)) \<and>
         (case answer of
            Inl r \<Rightarrow> fst (do_cd ops l w [''..'']) = Returned (Inl (Unable_to_go_up r)) \<and>
                     current_path w' = current_path w \<and> current_file w' = current_file w
          | Inr file \<Rightarrow> fst (do_cd ops l w [''..'']) = Returned (Inr ()) \<and>
                     current_path w' = target \<and> current_file w' = Some file)))"
  by (intro conjI do_cd_up_at_root do_cd_up_below_root)

lemma root_path_plen: "plen root_path = 2"
  by (simp add: root_path_def)

lemma format_3F00: "sc_format_path model_lib ''3F00'' p = root_path"
  by code_simp

theorem do_cd_up_witness:
  "do_cd (test_card False [] 4 256) model_lib (start_world root_path) [''..''] =
     (Returned (Inl Already_in_MF), start_world root_path) \<and>
   fst (do_cd (test_card False [] 4 256) model_lib
         (start_world (root_path\<lparr>pvalue := [0x3F, 0x00, 0x50, 0x15] @ replicate 12 0, plen := 4\<rparr>))
         [''..'']) = Returned (Inr ()) \<and>
   path_bytes (current_path (snd (do_cd (test_card False [] 4 256) model_lib
         (start_world (root_path\<lparr>pvalue := [0x3F, 0x00, 0x50, 0x15] @ replicate 12 0, plen := 4\<rparr>))
         [''..'']))) = [0x3F, 0x00] \<and>
   current_path (snd (do_cd (test_card False [] 4 256) model_lib
         (start_world (zero_path\<lparr>pvalue := [0xA0, 0, 0, 0, 0x63] @ replicate 11 0, plen := 5,
                                  ptype := SC_PATH_TYPE_DF_NAME\<rparr>)) [''..''])) = root_path"
proof -
  have a: "do_cd (test_card False [] 4 256) model_lib (start_world root_path) [''..''] =
     (Returned (Inl Already_in_MF), start_world root_path)"
    using do_cd_up [of "start_world root_path" "test_card False [] 4 256" model_lib]
    by (simp add: start_world_def root_path_plen)
  have b: "fst (do_cd (test_card False [] 4 256) model_lib
         (start_world (root_path\<lparr>pvalue := [0x3F, 0x00, 0x50, 0x15] @ replicate 12 0, plen := 4\<rparr>))
         [''..'']) = Returned (Inr ()) \<and>
     path_bytes (current_path (snd (do_cd (test_card False [] 4 256) model_lib
         (start_world (root_path\<lparr>pvalue := [0x3F, 0x00, 0x50, 0x15] @ replicate 12 0, plen := 4\<rparr>))
         [''..'']))) = [0x3F, 0x00]"
    using do_cd_up [of "start_world (root_path\<lparr>pvalue := [0x3F, 0x00, 0x50, 0x15] @ replicate 12 0,
                                      plen := 4\<rparr>)" "test_card False [] 4 256" model_lib]
    by (simp add: start_world_def root_path_def test_card_def Let_def path_bytes_def)
  have c: "current_path (snd (do_cd (test_card False [] 4 256) model_lib
         (start_world (zero_path\<lparr>pvalue := [0xA0, 0, 0, 0, 0x63] @ replicate 11 0, plen := 5,
                                  ptype := SC_PATH_TYPE_DF_NAME\<rparr>)) [''..''])) = root_path"
    using do_cd_up [of "start_world (zero_path\<lparr>pvalue := [0xA0, 0, 0, 0, 0x63] @ replicate 11 0,
                                   plen := 5, ptype := SC_PATH_TYPE_DF_NAME\<rparr>)"
                     "test_card False [] 4 256" model_lib]
    by (simp add: start_world_def format_3F00 test_card_def Let_def)
  show ?thesis using a b c by simp
qed

subsection \<open>Listing a directory\<close>

lemma select_current_path_or_die_frame:
  "current_path (snd (select_current_path_or_die ops w)) = current_path w \<and>
   current_file (snd (select_current_path_or_die ops w)) = current_file w"
  by (simp add: select_current_path_or_die_def call_select_file_eq split: sum.splits)

lemma select_current_path_or_die_trace:
  assumes "ptype (current_path w) \<noteq> SC_PATH_TYPE_FILE_ID \<or> plen (current_path w) \<noteq> 0"
    and "select_current_path_or_die ops w = (Returned u, w')"
  shows "\<exists>f. trace w' = trace w @ [Ev_select_file (current_path w) False (Inr f)]"
  using assms
  by (auto simp: select_current_path_or_die_def call_select_file_eq split: sum.splits)

lemma call_select_file_frame:
  "current_path (snd (call_select_file ops w p want)) = current_path w \<and>
   current_file (snd (call_select_file ops w p want)) = current_file w \<and>
   (\<exists>r. trace (snd (call_select_file ops w p want)) = trace w @ [Ev_select_file p want r])"
  by (simp add: call_select_file_eq)

lemma do_ls_loop_frame:
  "current_path (snd (do_ls_loop ops l buf w)) = current_path w \<and>
   current_file (snd (do_ls_loop ops l buf w)) = current_file w"
proof (induction ops l buf w rule: do_ls_loop.induct)
  case (1 ops l b0 b1 cur w)
  show ?case
  proof (cases "if ptype (current_path w) \<noteq> SC_PATH_TYPE_DF_NAME
            then Some (sc_append_path_id l (current_path w) [b0, b1])
            else sc_path_set l SC_PATH_TYPE_FILE_ID [b0, b1] 0 0")
    case None
    then show ?thesis by simp
  next
    case (Some path)
    let ?w1 = "snd (call_select_file ops w path True)"
    obtain res w2 where s: "select_current_path_or_die ops ?w1 = (res, w2)"
      by (cases "select_current_path_or_die ops ?w1")
    have f: "current_path w2 = current_path w \<and> current_file w2 = current_file w"
      using select_current_path_or_die_frame [of ops ?w1] call_select_file_frame [of ops w path True] s
      by simp
    show ?thesis
    proof (cases res)
      case (Returned u)
      then show ?thesis using 1 [OF Some s [symmetric] Returned] Some s f by simp
    next
      case (Died n)
      then show ?thesis using Some s f by simp
    next
      case Undefined
      then show ?thesis using Some s f by simp
    qed
  qed
qed simp_all

lemma reselected_append:
  "reselected cp evs \<Longrightarrow> reselected cp evs' \<Longrightarrow> reselected cp (evs @ evs')"
  by (induction cp evs rule: reselected.induct) simp_all

lemma do_ls_loop_reselects:
  assumes "ptype (current_path w) \<noteq> SC_PATH_TYPE_FILE_ID \<or> plen (current_path w) \<noteq> 0"
    and "do_ls_loop ops l buf w = (Returned u, w')"
  shows "\<exists>evs. trace w' = trace w @ evs \<and> reselected (current_path w) evs \<and>
               length evs = 2 * (length buf div 2)"
  using assms
proof (induction ops l buf w arbitrary: w' rule: do_ls_loop.induct)
  case (1 ops l b0 b1 cur w)
  let ?c = "if ptype (current_path w) \<noteq> SC_PATH_TYPE_DF_NAME
            then Some (sc_append_path_id l (current_path w) [b0, b1])
            else sc_path_set l SC_PATH_TYPE_FILE_ID [b0, b1] 0 0"
  from 1(3) obtain path where p: "?c = Some path"
    by (cases ?c) auto
  let ?w1 = "snd (call_select_file ops w path True)"
  obtain res w2 where s: "select_current_path_or_die ops ?w1 = (res, w2)"
    by (cases "select_current_path_or_die ops ?w1")
  from 1(3) p s obtain v where r: "res = Returned v"
    by (cases res) auto
  have rest: "do_ls_loop ops l cur w2 = (Returned u, w')"
    using 1(3) p s r by simp
  have w1: "current_path ?w1 = current_path w"
    using call_select_file_frame [of ops w path True] by simp
  obtain a where t1: "trace ?w1 = trace w @ [Ev_select_file path True a]"
    using call_select_file_frame [of ops w path True] by auto
  obtain f where t2: "trace w2 = trace ?w1 @ [Ev_select_file (current_path w) False (Inr f)]"
    using select_current_path_or_die_trace [of ?w1 ops v w2] 1(2) s r w1 by auto
  have c2: "current_path w2 = current_path w"
    using select_current_path_or_die_frame [of ops ?w1] s w1 by simp
  obtain evs where e: "trace w' = trace w2 @ evs" "reselected (current_path w) evs"
    "length evs = 2 * (length cur div 2)"
    using 1(1) [OF p s [symmetric] r _ rest] 1(2) c2 by auto
  have "trace w' = trace w @ (Ev_select_file path True a #
           Ev_select_file (current_path w) False (Inr f) # evs)"
    using e(1) t1 t2 by simp
  moreover have "reselected (current_path w)
      (Ev_select_file path True a # Ev_select_file (current_path w) False (Inr f) # evs)"
    using e(2) by simp
  moreover have "length (Ev_select_file path True a #
      Ev_select_file (current_path w) False (Inr f) # evs) = 2 * (length (b0 # b1 # cur) div 2)"
    using e(3) by simp
  ultimately show ?case by blast
next
  case (2 ops l b0 w)
  then show ?case by simp
next
  case (3 ops l w)
  then show ?case by simp
qed

lemma reselected_selected:
  "reselected cp evs \<Longrightarrow> foldl select_effect s evs = (if evs = [] then s else Some cp)"
  by (induction cp evs arbitrary: s rule: reselected.induct) simp_all

lemma selected_on_card_append:
  "selected_on_card (tr @ evs) = foldl select_effect (selected_on_card tr) evs"
  by (simp add: selected_on_card_def)

lemma do_ls_frame:
  "current_path (snd (do_ls ops l w argv)) = current_path w \<and>
   current_file (snd (do_ls ops l w argv)) = current_file w"
proof -
  have a: "current_path (snd (call_list_files ops w n)) = current_path w \<and>
           current_file (snd (call_list_files ops w n)) = current_file w" for n
    by (simp add: call_list_files_def split: prod.splits)
  show ?thesis
  proof (cases "argv \<noteq> []")
    case True
    then show ?thesis by (simp add: do_ls_def)
  next
    case False
    obtain r w1 where c: "call_list_files ops w 256 = (r, w1)"
      by (cases "call_list_files ops w 256")
    show ?thesis
    proof (cases r)
      case (Inl e)
      then show ?thesis using False c a [of 256] by (simp add: do_ls_def)
    next
      case (Inr buf)
      obtain res w2 where d: "do_ls_loop ops l buf w1 = (res, w2)"
        by (cases "do_ls_loop ops l buf w1")
      have "current_path w2 = current_path w \<and> current_file w2 = current_file w"
        using do_ls_loop_frame [of ops l buf w1] d a [of 256] c by simp
      then show ?thesis using False c Inr d by (cases res) (simp_all add: do_ls_def)
    qed
  qed
qed

lemma do_ls_calls:
  assumes g: "ptype (current_path w) \<noteq> SC_PATH_TYPE_FILE_ID \<or> plen (current_path w) \<noteq> 0"
    and r: "fst (do_ls ops l w argv) = Returned (Inr ())"
  shows "\<exists>buf evs. trace (snd (do_ls ops l w argv)) = trace w @ Ev_list_files 256 (Inr buf) # evs \<and>
           reselected (current_path w) evs \<and> length evs = 2 * (length buf div 2)"
proof -
  have n: "argv = []" using r by (cases "argv = []") (simp_all add: do_ls_def)
  obtain a w1 where c: "call_list_files ops w 256 = (a, w1)"
    by (cases "call_list_files ops w 256")
  have w1: "current_path w1 = current_path w" "trace w1 = trace w @ [Ev_list_files 256 a]"
    using c by (auto simp: call_list_files_def split: prod.splits)
  from r n c obtain buf where b: "a = Inr buf"
    by (cases a) (simp_all add: do_ls_def)
  obtain res w2 where d: "do_ls_loop ops l buf w1 = (res, w2)"
    by (cases "do_ls_loop ops l buf w1")
  from r n c b d obtain u where u: "res = Returned u"
    by (cases res) (simp_all add: do_ls_def)
  have s: "snd (do_ls ops l w argv) = w2"
    using n c b d u by (simp add: do_ls_def)
  obtain evs where e: "trace w2 = trace w1 @ evs" "reselected (current_path w1) evs"
    "length evs = 2 * (length buf div 2)"
    using do_ls_loop_reselects [of w1 ops l buf u w2] g w1(1) d u by auto
  show ?thesis using s e w1 b by simp
qed

lemma do_ls_selected:
  assumes g: "ptype (current_path w) \<noteq> SC_PATH_TYPE_FILE_ID \<or> plen (current_path w) \<noteq> 0"
    and r: "fst (do_ls ops l w argv) = Returned res"
    and s: "selected_on_card (trace w) = Some (current_path w)"
  shows "selected_on_card (trace (snd (do_ls ops l w argv))) = Some (current_path w)"
proof (cases res)
  case (Inl e)
  obtain a w1 where c: "call_list_files ops w 256 = (a, w1)"
    by (cases "call_list_files ops w 256")
  have w1: "trace w1 = trace w @ [Ev_list_files 256 a]"
    using c by (auto simp: call_list_files_def split: prod.splits)
  show ?thesis
  proof (cases "argv = []")
    case True
    obtain x where a: "a = Inl x"
    proof (cases a)
      case (Inl x) then show ?thesis using that by simp
    next
      case (Inr buf)
      then have "fst (do_ls ops l w argv) \<noteq> Returned (Inl e)"
        using True c by (simp add: do_ls_def split: prod.splits exec.splits)
      then show ?thesis using r Inl by simp
    qed
    then show ?thesis using True c w1 s by (simp add: do_ls_def selected_on_card_append)
  next
    case False
    then show ?thesis using s by (simp add: do_ls_def)
  qed
next
  case (Inr u)
  then have rr: "fst (do_ls ops l w argv) = Returned (Inr ())"
    using r by simp
  from do_ls_calls [OF g rr] obtain buf evs where e:
    "trace (snd (do_ls ops l w argv)) = trace w @ Ev_list_files 256 (Inr buf) # evs"
    "reselected (current_path w) evs"
    by blast
  have "trace (snd (do_ls ops l w argv)) = (trace w @ [Ev_list_files 256 (Inr buf)]) @ evs"
    using e(1) by simp
  then show ?thesis
    using reselected_selected [OF e(2), of "selected_on_card (trace w @ [Ev_list_files 256 (Inr buf)])"] s
    by (simp only: selected_on_card_append [of "trace w @ [Ev_list_files 256 (Inr buf)]" evs])
       (simp add: selected_on_card_append)
qed

text \<open>
  C2. Whenever \<open>ls\<close> returns to the shell, the current path and the current file are
  what they were. When the current path is not the empty path of type 0 (the state
  after a start with an empty start path), and the listing succeeded, the calls
  after the listing are, for each pair of bytes listed, the selection of that child
  followed at once by a successful selection of the current path; and if the current
  path was the last path selected on the card before, it is so afterwards.
\<close>

theorem do_ls_restores_selection:
  "fst (do_ls ops l w argv) = Returned res \<longrightarrow>
     current_path (snd (do_ls ops l w argv)) = current_path w \<and>
     current_file (snd (do_ls ops l w argv)) = current_file w \<and>
     (ptype (current_path w) \<noteq> SC_PATH_TYPE_FILE_ID \<or> plen (current_path w) \<noteq> 0 \<longrightarrow>
        (res = Inr () \<longrightarrow>
           (\<exists>buf evs. trace (snd (do_ls ops l w argv)) =
                         trace w @ Ev_list_files 256 (Inr buf) # evs \<and>
                       reselected (current_path w) evs \<and>
                       length evs = 2 * (length buf div 2))) \<and>
        (selected_on_card (trace w) = Some (current_path w) \<longrightarrow>
           selected_on_card (trace (snd (do_ls ops l w argv))) = Some (current_path w)))"
  using do_ls_frame [of ops l w argv] do_ls_calls [of w ops l argv]
        do_ls_selected [of w ops l argv res]
  by blast

theorem do_ls_restores_selection_witness:
  "fst (do_ls (test_card False [0x2F, 0x00, 0x50, 0x15] 4 256) model_lib
         ((start_world root_path)\<lparr>trace := [Ev_select_file root_path True (Inl 1),
                                            Ev_select_file root_path True
                                              (Inr \<lparr>file_id = 0x3F00, file_type = SC_FILE_TYPE_DF,
                                                     file_size = 0\<rparr>)]\<rparr>) []) =
     Returned (Inr ()) \<and>
   current_path (snd (do_ls (test_card False [0x2F, 0x00, 0x50, 0x15] 4 256) model_lib
         ((start_world root_path)\<lparr>trace := [Ev_select_file root_path True (Inl 1),
                                            Ev_select_file root_path True
                                              (Inr \<lparr>file_id = 0x3F00, file_type = SC_FILE_TYPE_DF,
                                                     file_size = 0\<rparr>)]\<rparr>) [])) = root_path \<and>
   selected_on_card (trace (snd (do_ls (test_card False [0x2F, 0x00, 0x50, 0x15] 4 256) model_lib
         ((start_world root_path)\<lparr>trace := [Ev_select_file root_path True (Inl 1),
                                            Ev_select_file root_path True
                                              (Inr \<lparr>file_id = 0x3F00, file_type = SC_FILE_TYPE_DF,
                                                     file_size = 0\<rparr>)]\<rparr>) []))) =
     Some root_path"
proof -
  let ?w = "(start_world root_path)\<lparr>trace := [Ev_select_file root_path True (Inl 1),
                                            Ev_select_file root_path True
                                              (Inr \<lparr>file_id = 0x3F00, file_type = SC_FILE_TYPE_DF,
                                                     file_size = 0\<rparr>)]\<rparr>"
  have r: "fst (do_ls (test_card False [0x2F, 0x00, 0x50, 0x15] 4 256) model_lib ?w []) =
      Returned (Inr ())"
    by code_simp
  have p: "current_path ?w = root_path"
    by (simp add: start_world_def)
  have g: "ptype root_path \<noteq> SC_PATH_TYPE_FILE_ID"
    by (simp add: root_path_def)
  have s: "selected_on_card (trace ?w) = Some root_path"
    by (simp add: selected_on_card_def)
  show ?thesis
    using do_ls_restores_selection [of "test_card False [0x2F, 0x00, 0x50, 0x15] 4 256" model_lib
            ?w "[]" "Inr ()"] r g s
    by (simp only: p) simp
qed

theorem do_ls_empty_path_counterexample:
  "fst (do_ls (test_card False [0x2F, 0x00] 4 256) model_lib (start_world zero_path) []) =
     Returned (Inr ()) \<and>
   trace (snd (do_ls (test_card False [0x2F, 0x00] 4 256) model_lib (start_world zero_path) [])) =
     [Ev_list_files 256 (Inr [0x2F, 0x00]),
      Ev_select_file (zero_path\<lparr>pvalue := [0x2F, 0x00] @ replicate 14 0, plen := 2\<rparr>) True
        (Inr \<lparr>file_id = 0, file_type = SC_FILE_TYPE_WORKING_EF, file_size = 4\<rparr>)] \<and>
   selected_on_card (trace (start_world zero_path)) = None \<and>
   selected_on_card
     (trace (snd (do_ls (test_card False [0x2F, 0x00] 4 256) model_lib (start_world zero_path) []))) =
     Some (zero_path\<lparr>pvalue := [0x2F, 0x00] @ replicate 14 0, plen := 2\<rparr>)"
  by code_simp

subsection \<open>Paths by application identifier\<close>

lemma strncasecmp_aid: "strncasecmp arg ''aid:'' (length ''aid:'') = prefix_nocase ''aid:'' arg"
  using strncasecmp_prefix_nocase [of "''aid:''" arg]
  by (simp add: strncasecmp_commute [of arg "''aid:''"])

lemma arg_to_path_aid:
  "prefix_nocase ''aid:'' arg \<Longrightarrow>
   arg_to_path l cur arg is_id =
     Inr (zero_path\<lparr> pvalue := store_at_start (written (hex2binary SC_MAX_PATH_SIZE (drop 4 arg)))
                                  (pvalue zero_path),
                     plen := ret (hex2binary SC_MAX_PATH_SIZE (drop 4 arg)),
                     ptype := SC_PATH_TYPE_DF_NAME \<rparr>)"
  using strncasecmp_aid [of arg] by (simp add: arg_to_path_def Let_def eval_nat_numeral)

lemma arg_to_path_aid_never_fails:
  "prefix_nocase ''aid:'' arg \<Longrightarrow> arg_to_path l cur arg is_id \<noteq> Inl e"
  by (simp add: arg_to_path_aid)

text \<open>
  C7. A token that starts with \<open>aid:\<close>, up to case, and goes on with an odd number
  of hex digits (fewer than 32): \<^verbatim>\<open>hex2binary\<close> reports the error and returns 0, and
  \<^verbatim>\<open>arg_to_path\<close> does not return an error but succeeds, with a DF name of length 0.
  The resolution of such a token never fails.
\<close>

theorem arg_to_path_aid_ignores_odd_digits:
  "prefix_nocase ''aid:'' arg \<and> odd (length (hex_digits (drop 4 arg))) \<and>
   length (hex_digits (drop 4 arg)) < 2 * SC_MAX_PATH_SIZE \<longrightarrow>
     odd_error (hex2binary SC_MAX_PATH_SIZE (drop 4 arg)) \<and>
     ret (hex2binary SC_MAX_PATH_SIZE (drop 4 arg)) = 0 \<and>
     (\<exists>path. arg_to_path l cur arg is_id = Inr path \<and> plen path = 0 \<and>
             ptype path = SC_PATH_TYPE_DF_NAME)"
proof
  assume h: "prefix_nocase ''aid:'' arg \<and> odd (length (hex_digits (drop 4 arg))) \<and>
             length (hex_digits (drop 4 arg)) < 2 * SC_MAX_PATH_SIZE"
  have e: "odd_error (hex2binary SC_MAX_PATH_SIZE (drop 4 arg)) \<and>
           ret (hex2binary SC_MAX_PATH_SIZE (drop 4 arg)) = 0"
    using h by (simp add: hex2binary_eq Let_def)
  show "odd_error (hex2binary SC_MAX_PATH_SIZE (drop 4 arg)) \<and>
     ret (hex2binary SC_MAX_PATH_SIZE (drop 4 arg)) = 0 \<and>
     (\<exists>path. arg_to_path l cur arg is_id = Inr path \<and> plen path = 0 \<and>
             ptype path = SC_PATH_TYPE_DF_NAME)"
    using h e by (simp add: arg_to_path_aid)
qed

theorem arg_to_path_aid_ignores_odd_digits_witness:
  "odd_error (hex2binary SC_MAX_PATH_SIZE ''A'') \<and>
   arg_to_path model_lib root_path ''aid:A'' False =
     Inr (zero_path\<lparr> pvalue := 0x0A # replicate 15 0, plen := 0,
                     ptype := SC_PATH_TYPE_DF_NAME \<rparr>)"
proof -
  have h: "prefix_nocase ''aid:'' ''aid:A'' \<and> odd (length (hex_digits (drop 4 ''aid:A''))) \<and>
           length (hex_digits (drop 4 ''aid:A'')) < 2 * SC_MAX_PATH_SIZE"
    by code_simp
  have d: "drop 4 ''aid:A'' = ''A''"
    by simp
  have a: "arg_to_path model_lib root_path ''aid:A'' False =
     Inr (zero_path\<lparr> pvalue := 0x0A # replicate 15 0, plen := 0,
                     ptype := SC_PATH_TYPE_DF_NAME \<rparr>)"
    by code_simp
  from arg_to_path_aid_ignores_odd_digits [of "''aid:A''" model_lib root_path False] h
  have "odd_error (hex2binary SC_MAX_PATH_SIZE (drop 4 ''aid:A''))"
    by blast
  then show ?thesis using a by (simp only: d)
qed

subsection \<open>Default file names\<close>

lemma length_fmt_02X: "length (fmt_02X b) = 2"
  by (simp add: fmt_02X_def)

lemma do_get_filename_two_pairs:
  assumes "4 \<le> plen path" "even (plen path)" "plen path \<le> length (pvalue path)"
  shows "\<exists>name. do_get_filename path = Some name \<and> 4 < length name \<and>
           take 4 name = fmt_02X (pvalue path ! 0) @ fmt_02X (pvalue path ! 1)"
proof -
  let ?n = "(plen path + 1) div 2"
  let ?f = "\<lambda>i. fmt_02X (pvalue path ! (2 * i)) @ fmt_02X (pvalue path ! (2 * i + 1)) @ ''_''"
  have n: "2 \<le> ?n" "2 * ?n \<le> length (pvalue path)"
    using assms by (auto elim!: evenE)
  then obtain m where m: "?n = Suc (Suc m)"
    by (metis Suc_le_D numeral_2_eq_2 Suc_le_mono)
  have u: "[0 ..< ?n] = 0 # 1 # [2 ..< ?n]"
    using m by (simp add: upt_conv_Cons numeral_2_eq_2)
  have c: "concat (map ?f [0 ..< ?n]) = ?f 0 @ ?f 1 @ concat (map ?f [2 ..< ?n])"
    by (simp only: u list.map concat.simps append_assoc)
  have b: "butlast (concat (map ?f [0 ..< ?n])) = ?f 0 @ butlast (?f 1 @ concat (map ?f [2 ..< ?n]))"
    by (simp only: c) (simp add: butlast_append)
  have g: "do_get_filename path = Some (?f 0 @ butlast (?f 1 @ concat (map ?f [2 ..< ?n])))"
    using n b by (simp add: do_get_filename_def Let_def)
  have l: "4 < length (?f 0 @ butlast (?f 1 @ concat (map ?f [2 ..< ?n])))"
    by (simp add: length_fmt_02X)
  have t: "take 4 (?f 0 @ butlast (?f 1 @ concat (map ?f [2 ..< ?n]))) =
             fmt_02X (pvalue path ! 0) @ fmt_02X (pvalue path ! 1)"
    by (simp add: length_fmt_02X)
  show ?thesis using g l t by blast
qed

text \<open>
  C9. For a path resolved with two or more pairs of bytes (an even length within the
  array), the default local file of \<open>get\<close> is named after all the pairs, joined by
  underscores, and the default local file of \<open>put\<close> after the first pair alone: its
  name is the first four characters of the other. So \<open>put\<close> does not name its file
  after all the pairs.
\<close>

theorem put_default_filename_first_pair:
  "arg_to_path l cur arg False = Inr path \<and> 4 \<le> plen path \<and> even (plen path) \<and>
   plen path \<le> length (pvalue path) \<longrightarrow>
     (\<exists>name. do_get_filename path = Some name \<and> 4 < length name \<and>
             do_put_local_file l cur [arg] = Returned (Inr (take 4 name)) \<and>
             take 4 name = fmt_02X (pvalue path ! 0) @ fmt_02X (pvalue path ! 1))"
proof
  assume h: "arg_to_path l cur arg False = Inr path \<and> 4 \<le> plen path \<and> even (plen path) \<and>
             plen path \<le> length (pvalue path)"
  then obtain name where n: "do_get_filename path = Some name" "4 < length name"
    "take 4 name = fmt_02X (pvalue path ! 0) @ fmt_02X (pvalue path ! 1)"
    using do_get_filename_two_pairs [of path] by blast
  have "do_put_local_file l cur [arg] =
          Returned (Inr (fmt_02X (pvalue path ! 0) @ fmt_02X (pvalue path ! 1)))"
    using h by (simp add: do_put_local_file_def do_put_filename_def)
  then show "\<exists>name. do_get_filename path = Some name \<and> 4 < length name \<and>
             do_put_local_file l cur [arg] = Returned (Inr (take 4 name)) \<and>
             take 4 name = fmt_02X (pvalue path ! 0) @ fmt_02X (pvalue path ! 1)"
    using n by simp
qed

theorem put_default_filename_first_pair_witness:
  "arg_to_path model_lib root_path ''2F00'' False =
     Inr (root_path\<lparr>pvalue := 0x3F # 0x00 # 0x2F # 0x00 # replicate 12 0, plen := 4\<rparr>) \<and>
   do_get_filename (root_path\<lparr>pvalue := 0x3F # 0x00 # 0x2F # 0x00 # replicate 12 0, plen := 4\<rparr>) =
     Some ''3F00_2F00'' \<and>
   do_put_local_file model_lib root_path [''2F00''] = Returned (Inr ''3F00'') \<and>
   map_option (\<lambda>r. hd (trace (snd r)))
     (do_get (test_card False [] 0 256) model_lib (start_world root_path) [''2F00'']) =
     Some (Ev_fopen ''3F00_2F00'' ''wb'' True)"
proof -
  have a: "arg_to_path model_lib root_path ''2F00'' False =
     Inr (root_path\<lparr>pvalue := 0x3F # 0x00 # 0x2F # 0x00 # replicate 12 0, plen := 4\<rparr>)"
    by code_simp
  have g: "do_get_filename (root_path\<lparr>pvalue := 0x3F # 0x00 # 0x2F # 0x00 # replicate 12 0, plen := 4\<rparr>) =
     Some ''3F00_2F00''"
    by code_simp
  have l: "do_put_local_file model_lib root_path [''2F00''] = Returned (Inr ''3F00'')"
    using put_default_filename_first_pair [of model_lib root_path "''2F00''"
            "root_path\<lparr>pvalue := 0x3F # 0x00 # 0x2F # 0x00 # replicate 12 0, plen := 4\<rparr>"] a g
    by simp
  have fo: "fopen model_lib name mode" for name mode
    by (simp add: model_lib_def)
  have pt: "ptype root_path = SC_PATH_TYPE_PATH"
    by (simp add: root_path_def)
  have d: "map_option (\<lambda>r. hd (trace (snd r)))
     (do_get (test_card False [] 0 256) model_lib (start_world root_path) [''2F00'']) =
     Some (Ev_fopen ''3F00_2F00'' ''wb'' True)"
    by (simp add: do_get_def start_world_def a g fo pt read_binary_loop.simps test_card_def
          call_select_file_eq do_get_exit_def select_current_path_or_die_def Let_def)
  show ?thesis using a g l d by simp
qed

subsection \<open>The chunked read\<close>

lemma wrap_minus:
  fixes count d M :: nat
  assumes "count < M" "d \<le> count"
  shows "(count + M - d mod M) mod M = count - d"
proof -
  have 1: "d mod M = d" using assms by simp
  have 2: "count + M - d = (count - d) + M" using assms by simp
  have 3: "count - d < M" using assms by simp
  have "(count + M - d mod M) mod M = ((count - d) + M) mod M" by (simp only: 1 2)
  also have "\<dots> = (count - d) mod M" by (rule mod_add_self2)
  also have "\<dots> = count - d" using 3 by (rule mod_less)
  finally show ?thesis .
qed

lemma size_t_minus:
  "count < 2 ^ 64 \<Longrightarrow> d \<le> count \<Longrightarrow> (count + 2 ^ 64 - d mod 2 ^ 64) mod 2 ^ 64 = count - (d::nat)"
  by (rule wrap_minus)

lemma call_read_binary_eq:
  "call_read_binary ops w idx n =
     (fst (sc_read_binary ops (card_state w) idx n),
      w\<lparr>card_state := snd (sc_read_binary ops (card_state w) idx n),
        trace := trace w @ [Ev_read_binary idx n (fst (sc_read_binary ops (card_state w) idx n))]\<rparr>)"
  by (simp add: call_read_binary_def split: prod.splits)

lemma ends_with_empty_read_Cons2:
  "ends_with_empty_read (a # b # evs) = ends_with_empty_read (b # evs)"
  by simp

lemma read_binary_loop_core:
  fixes ops :: "'c card_ops"
  assumes bs: "0 < bufsize"
    and wb: "is_belpic_eid ops \<longrightarrow>
             (\<forall>c idx n data c'. sc_read_binary ops c idx n = (Inr data, c') \<longrightarrow> length data \<le> n)"
    and sk: "sink = Ev_hex_dump \<or> sink = (\<lambda>data idx. Ev_fwrite data)"
  shows "count < 2 ^ 64 \<Longrightarrow>
    \<exists>res w' idx' evs.
      read_binary_loop ops bufsize sink w idx count = Some (res, w', idx') \<and>
      trace w' = trace w @ evs \<and>
      list_all (request_within bufsize) evs \<and>
      (\<not> is_belpic_eid ops \<longrightarrow> (res = Inr ()) = list_all full_read evs) \<and>
      (is_belpic_eid ops \<longrightarrow> res = Inr () \<or> (\<exists>r. res = Inl (Read_failed r))) \<and>
      (res = Inr () \<longrightarrow> bytes_received evs = count \<or> is_belpic_eid ops \<and> ends_with_empty_read evs)"
proof (induction count arbitrary: w idx rule: less_induct)
  case (less count)
  have sf: "received (sink d i) = 0 \<and> request_within bufsize (sink d i) \<and> full_read (sink d i) \<and>
            \<not> ends_with_empty_read [sink d i]" for d i
    using sk by auto
  show ?case
  proof (cases "count = 0")
    case True
    have "read_binary_loop ops bufsize sink w idx count = Some (Inr (), w, idx)"
      using True by (subst read_binary_loop.simps) simp
    then show ?thesis using True
      by (intro exI [of _ "Inr ()"] exI [of _ w] exI [of _ idx] exI [of _ "[]"])
         (simp add: bytes_received_def)
  next
    case False
    let ?c = "if count > bufsize then bufsize else count"
    let ?a = "fst (sc_read_binary ops (card_state w) idx ?c)"
    let ?ev = "Ev_read_binary idx ?c ?a"
    let ?w1 = "w\<lparr>card_state := snd (sc_read_binary ops (card_state w) idx ?c),
                 trace := trace w @ [?ev]\<rparr>"
    have c: "0 < ?c" "?c \<le> bufsize" "?c \<le> count"
      using False bs by auto
    have cr: "call_read_binary ops w idx ?c = (?a, ?w1)"
      by (rule call_read_binary_eq)
    have rq: "request_within bufsize ?ev"
      using c(2) by simp
    show ?thesis
    proof (cases ?a)
      case (Inl r)
      have "read_binary_loop ops bufsize sink w idx count = Some (Inl (Read_failed r), ?w1, idx)"
        using False Inl cr by (subst read_binary_loop.simps) (simp add: Let_def)
      then show ?thesis using rq Inl
        by (intro exI [of _ "Inl (Read_failed r)"] exI [of _ ?w1] exI [of _ idx] exI [of _ "[?ev]"])
           simp
    next
      case (Inr data)
      have rc: "received ?ev = length data" "full_read ?ev = (length data = ?c)"
        using Inr by simp_all
      consider (short) "length data \<noteq> ?c" "\<not> is_belpic_eid ops"
        | (empty) "length data = 0" "is_belpic_eid ops"
        | (more) "\<not> (length data \<noteq> ?c \<and> \<not> is_belpic_eid ops)"
                 "\<not> (length data = 0 \<and> is_belpic_eid ops)"
        by blast
      then show ?thesis
      proof cases
        case short
        have "read_binary_loop ops bufsize sink w idx count =
                Some (Inl (Short_read ?c (length data)), ?w1, idx)"
          using False Inr cr short by (subst read_binary_loop.simps) (simp add: Let_def)
        then show ?thesis using rq rc short
          by (intro exI [of _ "Inl (Short_read ?c (length data))"] exI [of _ ?w1] exI [of _ idx]
                exI [of _ "[?ev]"]) simp
      next
        case empty
        have "read_binary_loop ops bufsize sink w idx count = Some (Inr (), ?w1, idx)"
          using False Inr cr empty c(1) by (subst read_binary_loop.simps) (simp add: Let_def)
        moreover have "ends_with_empty_read [?ev]"
          using Inr empty by simp
        ultimately show ?thesis using rq empty
          by (intro exI [of _ "Inr ()"] exI [of _ ?w1] exI [of _ idx] exI [of _ "[?ev]"]) simp
      next
        case more
        let ?w2 = "?w1\<lparr>trace := trace ?w1 @ [sink data idx]\<rparr>"
        let ?idx = "(idx + length data) mod 2 ^ 32"
        let ?count = "(count + 2 ^ 64 - length data mod 2 ^ 64) mod 2 ^ 64"
        have le: "length data \<le> ?c"
        proof (cases "is_belpic_eid ops")
          case True
          have "sc_read_binary ops (card_state w) idx ?c =
                  (Inr data, snd (sc_read_binary ops (card_state w) idx ?c))"
            using Inr by (simp add: prod_eq_iff)
          then show ?thesis using wb True by blast
        next
          case False
          then show ?thesis using more(1) by simp
        qed
        have pos: "0 < length data"
          using more c(1) by (cases "is_belpic_eid ops") auto
        have cnt: "?count = count - length data"
          using less.prems le c(3) by (intro size_t_minus) auto
        have d1: "count - length data < count"
          using pos False by arith
        have lt: "?count < count" "?count < 2 ^ 64"
          using cnt d1 less.prems by (simp_all only:)
        have unf: "read_binary_loop ops bufsize sink w idx count =
                     read_binary_loop ops bufsize sink ?w2 ?idx ?count"
          using False Inr cr more by (subst read_binary_loop.simps) (auto simp: Let_def)
        obtain res w' idx' evs where ih:
          "read_binary_loop ops bufsize sink ?w2 ?idx ?count = Some (res, w', idx')"
          "trace w' = trace ?w2 @ evs"
          "list_all (request_within bufsize) evs"
          "\<not> is_belpic_eid ops \<longrightarrow> (res = Inr ()) = list_all full_read evs"
          "is_belpic_eid ops \<longrightarrow> res = Inr () \<or> (\<exists>r. res = Inl (Read_failed r))"
          "res = Inr () \<longrightarrow> bytes_received evs = ?count \<or> is_belpic_eid ops \<and> ends_with_empty_read evs"
          using less.IH [OF lt(1) lt(2), of ?w2 ?idx] by blast
        let ?evs = "?ev # sink data idx # evs"
        have t: "trace w' = trace w @ ?evs"
          using ih(2) by simp
        have r: "list_all (request_within bufsize) ?evs"
          using ih(3) rq sf by simp
        have f: "\<not> is_belpic_eid ops \<longrightarrow> (res = Inr ()) = list_all full_read ?evs"
          using ih(4) rc(2) more(1) sf by auto
        have e: "ends_with_empty_read evs \<Longrightarrow> ends_with_empty_read ?evs"
          using sf [of data idx] by (cases evs) (simp_all add: ends_with_empty_read_Cons2)
        have b: "bytes_received ?evs = length data + bytes_received evs"
          using rc(1) sf by (simp add: bytes_received_def)
        have s: "res = Inr () \<longrightarrow> bytes_received ?evs = count \<or>
                   is_belpic_eid ops \<and> ends_with_empty_read ?evs"
          using ih(6) e b cnt le c(3) by auto
        show ?thesis
          using unf ih(1) t r f ih(5) s
          by (intro exI [of _ res] exI [of _ w'] exI [of _ idx'] exI [of _ ?evs]) simp
      qed
    qed
  qed
qed

text \<open>
  C5. The two read loops (128 bytes at a time to the hex dump in \<open>cat\<close>, 256 bytes at
  a time to the local file in \<open>get\<close>), for a file size below \<open>2^64\<close> and, on a Belpic
  eID card, a card that never returns more bytes than asked for: the loop returns;
  no call asks for more than the size of the buffer; on every other card the read
  succeeds exactly when every call was answered in full, so a shorter answer is an
  error; on a Belpic eID card only a failing call is an error, a shorter answer is
  accepted and the loop goes on after it, unless it has no bytes, which ends the read;
  and a read that succeeds has received as many bytes as the size of the file, unless
  it was ended by an answer without bytes on a Belpic eID card.
\<close>

theorem chunked_read:
  fixes ops :: "'c card_ops"
  assumes "count < 2 ^ 64"
    and "is_belpic_eid ops \<longrightarrow>
         (\<forall>c idx n data c'. sc_read_binary ops c idx n = (Inr data, c') \<longrightarrow> length data \<le> n)"
    and "bufsize = 128 \<and> sink = Ev_hex_dump \<or> bufsize = 256 \<and> sink = (\<lambda>data idx. Ev_fwrite data)"
  shows "\<exists>res w' idx' evs.
      read_binary_loop ops bufsize sink w idx count = Some (res, w', idx') \<and>
      trace w' = trace w @ evs \<and>
      list_all (request_within bufsize) evs \<and>
      (\<not> is_belpic_eid ops \<longrightarrow> (res = Inr ()) = list_all full_read evs) \<and>
      (is_belpic_eid ops \<longrightarrow> res = Inr () \<or> (\<exists>r. res = Inl (Read_failed r))) \<and>
      (res = Inr () \<longrightarrow> bytes_received evs = count \<or> is_belpic_eid ops \<and> ends_with_empty_read evs)"
proof -
  have b: "0 < bufsize" using assms(3) by auto
  have s: "sink = Ev_hex_dump \<or> sink = (\<lambda>data idx. Ev_fwrite data)" using assms(3) by auto
  show ?thesis by (rule read_binary_loop_core [OF b assms(2) s assms(1)])
qed

theorem chunked_read_witness:
  "read_binary_loop (test_card False [] 600 256) 256 (\<lambda>data idx. Ev_fwrite data)
     (start_world root_path) 0 600 =
     Some (Inr (),
           (start_world root_path)\<lparr>trace :=
              [Ev_read_binary 0 256 (Inr (replicate 256 0)), Ev_fwrite (replicate 256 0),
               Ev_read_binary 256 256 (Inr (replicate 256 0)), Ev_fwrite (replicate 256 0),
               Ev_read_binary 512 88 (Inr (replicate 88 0)), Ev_fwrite (replicate 88 0)]\<rparr>,
           600) \<and>
   bytes_received
     [Ev_read_binary 0 256 (Inr (replicate 256 0)), Ev_fwrite (replicate 256 0),
      Ev_read_binary 256 256 (Inr (replicate 256 0)), Ev_fwrite (replicate 256 0),
      Ev_read_binary 512 88 (Inr (replicate 88 0)), Ev_fwrite (replicate 88 0)] = 600"
proof -
  let ?tr = "[Ev_read_binary 0 256 (Inr (replicate 256 0)), Ev_fwrite (replicate 256 0),
      Ev_read_binary 256 256 (Inr (replicate 256 0)), Ev_fwrite (replicate 256 0),
      Ev_read_binary 512 88 (Inr (replicate 88 0)), Ev_fwrite (replicate 88 0)]"
  have run: "read_binary_loop (test_card False [] 600 256) 256 (\<lambda>data idx. Ev_fwrite data)
     (start_world root_path) 0 600 = Some (Inr (), (start_world root_path)\<lparr>trace := ?tr\<rparr>, 600)"
    by (simp add: read_binary_loop.simps test_card_def call_read_binary_eq start_world_def Let_def)
  have nb: "\<not> is_belpic_eid (test_card False [] 600 256)"
    by (simp add: test_card_def)
  obtain res w' idx' evs where t:
    "read_binary_loop (test_card False [] 600 256) 256 (\<lambda>data idx. Ev_fwrite data)
       (start_world root_path) 0 600 = Some (res, w', idx')"
    "trace w' = trace (start_world root_path) @ evs"
    "res = Inr () \<longrightarrow> bytes_received evs = 600 \<or>
       is_belpic_eid (test_card False [] 600 256) \<and> ends_with_empty_read evs"
    using chunked_read [of 600 "test_card False [] 600 256" 256 "\<lambda>data idx. Ev_fwrite data"
            "start_world root_path" 0] nb
    by auto
  have "res = Inr ()" "w' = (start_world root_path)\<lparr>trace := ?tr\<rparr>"
    using t(1) run by simp_all
  then have "bytes_received ?tr = 600"
    using t(2) t(3) nb by (simp add: start_world_def)
  then show ?thesis using run by simp
qed

theorem belpic_short_read_counterexample:
  "is_belpic_eid (test_card True [] 4 3) \<and>
   read_binary_loop (test_card True [] 4 3) 128 Ev_hex_dump (start_world root_path) 0 4 =
     Some (Inr (),
           (start_world root_path)\<lparr>trace :=
              [Ev_read_binary 0 4 (Inr (replicate 3 0)), Ev_hex_dump (replicate 3 0) 0,
               Ev_read_binary 3 1 (Inr (replicate 1 0)), Ev_hex_dump (replicate 1 0) 3]\<rparr>,
           4)"
  by (simp add: read_binary_loop.simps test_card_def call_read_binary_eq start_world_def Let_def)

end
